theory Spec2Isabelle
  imports Main "HOL-Library.Word"
begin

unbundle bit_operations_syntax

section \<open>Machine data and the byte order of the host\<close>

text \<open>
  The packet codec of \<^verbatim>\<open>lib/raw_packets.c\<close> works on C structs that are read from and
  written to sockets as raw bytes. Scalars are machine words; the payload of a packet is a
  union followed by a flexible array of samples, so it is kept as bytes (a map from the
  offset inside the union to the byte stored there) and the typed structs are views of
  these bytes in the byte order of the host. A buffer is assumed to be large enough for
  every access the code makes to it: C gives no meaning to the others.
\<close>

type_synonym u8 = "8 word"
type_synonym u16 = "16 word"
type_synonym u32 = "32 word"
type_synonym mem = "nat \<Rightarrow> u8"

datatype endian = LittleEndian | BigEndian

text \<open>The value a host of byte order \<open>h\<close> reads from consecutive bytes (lowest address
  first), and the byte it stores at position \<open>k\<close> of a value.\<close>

definition host_u16 :: "endian \<Rightarrow> u8 \<Rightarrow> u8 \<Rightarrow> u16" where
  "host_u16 h b0 b1 =
     (case h of
        LittleEndian \<Rightarrow> push_bit 8 (ucast b1) OR ucast b0
      | BigEndian \<Rightarrow> push_bit 8 (ucast b0) OR ucast b1)"

definition host_byte16 :: "endian \<Rightarrow> nat \<Rightarrow> u16 \<Rightarrow> u8" where
  "host_byte16 h k v =
     (case h of
        LittleEndian \<Rightarrow> ucast (drop_bit (8 * k) v)
      | BigEndian \<Rightarrow> ucast (drop_bit (8 * (1 - k)) v))"

definition host_u32 :: "endian \<Rightarrow> u8 \<Rightarrow> u8 \<Rightarrow> u8 \<Rightarrow> u8 \<Rightarrow> u32" where
  "host_u32 h b0 b1 b2 b3 =
     (case h of
        LittleEndian \<Rightarrow>
          push_bit 24 (ucast b3) OR push_bit 16 (ucast b2) OR push_bit 8 (ucast b1) OR ucast b0
      | BigEndian \<Rightarrow>
          push_bit 24 (ucast b0) OR push_bit 16 (ucast b1) OR push_bit 8 (ucast b2) OR ucast b3)"

definition host_byte32 :: "endian \<Rightarrow> nat \<Rightarrow> u32 \<Rightarrow> u8" where
  "host_byte32 h k v =
     (case h of
        LittleEndian \<Rightarrow> ucast (drop_bit (8 * k) v)
      | BigEndian \<Rightarrow> ucast (drop_bit (8 * (3 - k)) v))"

text \<open>\<^verbatim>\<open>htons\<close>, \<^verbatim>\<open>htonl\<close>, \<^verbatim>\<open>ntohs\<close>, \<^verbatim>\<open>ntohl\<close> of the C library: the host value whose
  bytes in memory are the big-endian (network) bytes of the argument, and back.\<close>

definition htons :: "endian \<Rightarrow> u16 \<Rightarrow> u16" where
  "htons h v = host_u16 h (host_byte16 BigEndian 0 v) (host_byte16 BigEndian 1 v)"

definition ntohs :: "endian \<Rightarrow> u16 \<Rightarrow> u16" where
  "ntohs h v = host_u16 BigEndian (host_byte16 h 0 v) (host_byte16 h 1 v)"

definition htonl :: "endian \<Rightarrow> u32 \<Rightarrow> u32" where
  "htonl h v =
     host_u32 h (host_byte32 BigEndian 0 v) (host_byte32 BigEndian 1 v)
       (host_byte32 BigEndian 2 v) (host_byte32 BigEndian 3 v)"

definition ntohl :: "endian \<Rightarrow> u32 \<Rightarrow> u32" where
  "ntohl h v =
     host_u32 BigEndian (host_byte32 h 0 v) (host_byte32 h 1 v)
       (host_byte32 h 2 v) (host_byte32 h 3 v)"

text \<open>Loads and stores of scalars at an offset of a byte buffer.\<close>

definition ld16 :: "endian \<Rightarrow> mem \<Rightarrow> nat \<Rightarrow> u16" where
  "ld16 h m a = host_u16 h (m a) (m (a + 1))"

definition st16 :: "endian \<Rightarrow> nat \<Rightarrow> u16 \<Rightarrow> mem \<Rightarrow> mem" where
  "st16 h a v m = m(a := host_byte16 h 0 v, a + 1 := host_byte16 h 1 v)"

definition ld32 :: "endian \<Rightarrow> mem \<Rightarrow> nat \<Rightarrow> u32" where
  "ld32 h m a = host_u32 h (m a) (m (a + 1)) (m (a + 2)) (m (a + 3))"

definition st32 :: "endian \<Rightarrow> nat \<Rightarrow> u32 \<Rightarrow> mem \<Rightarrow> mem" where
  "st32 h a v m =
     m(a := host_byte32 h 0 v, a + 1 := host_byte32 h 1 v,
       a + 2 := host_byte32 h 2 v, a + 3 := host_byte32 h 3 v)"

text \<open>\<^verbatim>\<open>memcpy(dst, src, n)\<close> on two buffers addressed from their start.\<close>

definition memcpy :: "mem \<Rightarrow> mem \<Rightarrow> nat \<Rightarrow> mem" where
  "memcpy dst src n = (\<lambda>a. if a < n then src a else dst a)"

text \<open>What stops a call: a failed \<^verbatim>\<open>assert\<close> (assertions are compiled in, as in a debug
  build), a null pointer that is dereferenced, an array accessed past its end.\<close>

datatype fault = AssertionFailed | NullDeref | OutOfBounds

text \<open>The values of \<^verbatim>\<open>errno\<close> the codec sets (\<^verbatim>\<open>errno.h\<close> of Linux).\<close>

definition EIO :: int where "EIO = 5"
definition EINVAL :: int where "EINVAL = 22"
definition EPROTO :: int where "EPROTO = 71"


section \<open>Packets\<close>

definition PACKET_HEADER_MAGIC :: u8 where "PACKET_HEADER_MAGIC = 0x5A"
definition PACKET_HEADER_PROTO_VERS :: u8 where "PACKET_HEADER_PROTO_VERS = 0x00"

text \<open>The packet type codes \<^verbatim>\<open>RAW_PKT_TYPE_*\<close> are defined in \<^verbatim>\<open>raw_packets.h\<close>, which is
  not among the sources, and the specification gives no numbers for them: they are a
  parameter of every function that switches on a type. They are the labels of one
  \<^verbatim>\<open>switch\<close>, so they are distinct.\<close>

record pkt_types =
  RAW_PKT_TYPE_BSAMP :: u8
  RAW_PKT_TYPE_REQ :: u8
  RAW_PKT_TYPE_RES :: u8
  RAW_PKT_TYPE_ERR :: u8

definition pkt_types_ok :: "pkt_types \<Rightarrow> bool" where
  "pkt_types_ok T =
     distinct [RAW_PKT_TYPE_BSAMP T, RAW_PKT_TYPE_REQ T, RAW_PKT_TYPE_RES T, RAW_PKT_TYPE_ERR T]"

text \<open>Modelled from the spec: \<^verbatim>\<open>struct raw_msg_req\<close> of the missing \<^verbatim>\<open>raw_packets.h\<close>, the
  request and response payload \<open>(r_id: u16, r_type: u8, r_addr: u8, r_val: u32)\<close> at
  offsets 0, 2, 3 and 4. The code converts a response through a cast to a request, so
  both have this layout.\<close>

record raw_msg_req =
  r_id :: u16
  r_type :: u8
  r_addr :: u8
  r_val :: u32

text \<open>Modelled from the spec: \<^verbatim>\<open>struct raw_msg_bsamp\<close> of the missing \<^verbatim>\<open>raw_packets.h\<close>,
  \<open>bs_idx (u32) | bs_nchips (u16) | bs_nlines (u16) | samples\<close>, the samples being the
  16-bit elements of the array that follows the struct.\<close>

record raw_msg_bsamp =
  bs_idx :: u32
  bs_nchips :: u16
  bs_nlines :: u16
  bs_samples :: "nat \<Rightarrow> u16"

text \<open>Modelled from the spec: \<^verbatim>\<open>struct raw_packet\<close> of the missing \<^verbatim>\<open>raw_packets.h\<close>. The
  fields are those the code names: the four header bytes that \<^verbatim>\<open>raw_packet_init\<close> writes
  (bytes 0 to 3 of the packet; \<^verbatim>\<open>_p_magic\<close> and \<^verbatim>\<open>_p_proto_vers\<close> lose their underscore
  here), then the union \<^verbatim>\<open>p\<close> and the samples behind it, as bytes.\<close>

record raw_packet =
  p_magic :: u8
  p_proto_vers :: u8
  p_type :: u8
  p_flags :: u8
  p :: mem

text \<open>Modelled from the spec: the sizes \<^verbatim>\<open>sizeof(struct raw_msg_req)\<close>,
  \<^verbatim>\<open>sizeof(struct raw_msg_bsamp)\<close> (the struct without its samples) and
  \<^verbatim>\<open>sizeof(struct raw_packet)\<close> that follow from the layouts above.\<close>

definition sizeof_raw_msg_req :: nat where "sizeof_raw_msg_req = 8"
definition sizeof_raw_msg_bsamp :: nat where "sizeof_raw_msg_bsamp = 8"
definition sizeof_raw_packet :: nat where "sizeof_raw_packet = 12"
definition sizeof_raw_samp_t :: nat where "sizeof_raw_samp_t = 2"

text \<open>The views \<^verbatim>\<open>packet->p.req\<close> (also \<^verbatim>\<open>p.res\<close>) and \<^verbatim>\<open>packet->p.bsamp\<close> of the union, and
  the packet after a struct has been written through such a view.\<close>

definition p_req :: "endian \<Rightarrow> raw_packet \<Rightarrow> raw_msg_req" where
  "p_req h pk =
     \<lparr>r_id = ld16 h (p pk) 0, r_type = p pk 2, r_addr = p pk 3, r_val = ld32 h (p pk) 4\<rparr>"

definition set_p_req :: "endian \<Rightarrow> raw_msg_req \<Rightarrow> raw_packet \<Rightarrow> raw_packet" where
  "set_p_req h m pk =
     pk\<lparr>p := st32 h 4 (r_val m) ((st16 h 0 (r_id m) (p pk))(2 := r_type m, 3 := r_addr m))\<rparr>"

definition p_bsamp :: "endian \<Rightarrow> raw_packet \<Rightarrow> raw_msg_bsamp" where
  "p_bsamp h pk =
     \<lparr>bs_idx = ld32 h (p pk) 0, bs_nchips = ld16 h (p pk) 4, bs_nlines = ld16 h (p pk) 6,
      bs_samples = (\<lambda>i. ld16 h (p pk) (8 + 2 * i))\<rparr>"

definition set_p_bsamp :: "endian \<Rightarrow> raw_msg_bsamp \<Rightarrow> raw_packet \<Rightarrow> raw_packet" where
  "set_p_bsamp h m pk =
     pk\<lparr>p := st32 h 0 (bs_idx m) (st16 h 4 (bs_nchips m) (st16 h 6 (bs_nlines m)
            (\<lambda>a. if 8 \<le> a then host_byte16 h ((a - 8) mod 2) (bs_samples m ((a - 8) div 2))
                 else p pk a)))\<rparr>"

text \<open>Modelled from the spec: \<^verbatim>\<open>raw_bsamp_nsamps\<close> and \<^verbatim>\<open>raw_packet_sampsize\<close> of the
  missing \<^verbatim>\<open>raw_packets.h\<close>. A board sample carries \<open>nchips \<times> nlines\<close> samples and its
  sample payload is \<open>nchips \<times> nlines \<times> 2\<close> bytes; the products are taken in a
  \<^verbatim>\<open>size_t\<close> of 64 bits, where they do not wrap.\<close>

definition raw_bsamp_nsamps :: "raw_msg_bsamp \<Rightarrow> nat" where
  "raw_bsamp_nsamps msg = unat (bs_nchips msg) * unat (bs_nlines msg)"

definition raw_packet_sampsize :: "endian \<Rightarrow> raw_packet \<Rightarrow> nat" where
  "raw_packet_sampsize h pk = raw_bsamp_nsamps (p_bsamp h pk) * sizeof_raw_samp_t"


subsection \<open>Initialisation and copy\<close>

definition raw_packet_init :: "raw_packet \<Rightarrow> u8 \<Rightarrow> u8 \<Rightarrow> raw_packet" where
  "raw_packet_init packet type flags =
     packet\<lparr>p_magic := PACKET_HEADER_MAGIC, p_proto_vers := PACKET_HEADER_PROTO_VERS,
            p_type := type, p_flags := flags\<rparr>"

text \<open>\<^verbatim>\<open>raw_packet_copy\<close>: the first \<^verbatim>\<open>memcpy\<close> copies the bytes before the union, that is the
  four header fields; the \<^verbatim>\<open>switch\<close> then copies a prefix of the union that depends on the
  type of the source, and asserts on any other type.\<close>

definition raw_packet_copy ::
  "pkt_types \<Rightarrow> endian \<Rightarrow> raw_packet \<Rightarrow> raw_packet \<Rightarrow> fault + raw_packet" where
  "raw_packet_copy T h dst src =
     (let dst1 = dst\<lparr>p_magic := p_magic src, p_proto_vers := p_proto_vers src,
                     p_type := p_type src, p_flags := p_flags src\<rparr>
      in if p_type src = RAW_PKT_TYPE_BSAMP T then
           Inr (dst1\<lparr>p := memcpy (p dst1) (p src)
                              (sizeof_raw_msg_bsamp + raw_packet_sampsize h src)\<rparr>)
         else if p_type src = RAW_PKT_TYPE_REQ T \<or> p_type src = RAW_PKT_TYPE_RES T then
           Inr (dst1\<lparr>p := memcpy (p dst1) (p src) sizeof_raw_msg_req\<rparr>)
         else if p_type src = RAW_PKT_TYPE_ERR T then Inr dst1
         else Inl AssertionFailed)"


subsection \<open>Byte-order conversion of the payloads\<close>

text \<open>The loop of \<^verbatim>\<open>raw_msg_bsamp_hton\<close>; its bound \<^verbatim>\<open>raw_bsamp_nsamps(msg)\<close> is read again
  from the message at every test.\<close>

function raw_msg_bsamp_hton_loop :: "endian \<Rightarrow> raw_msg_bsamp \<Rightarrow> nat \<Rightarrow> raw_msg_bsamp" where
  "raw_msg_bsamp_hton_loop h msg i =
     (if i < raw_bsamp_nsamps msg then
        raw_msg_bsamp_hton_loop h
          (msg\<lparr>bs_samples := (bs_samples msg)(i := htons h (bs_samples msg i))\<rparr>) (Suc i)
      else msg)"
  by pat_completeness auto
termination
  by (relation "measure (\<lambda>(h, msg, i). raw_bsamp_nsamps msg - i)")
     (auto simp: raw_bsamp_nsamps_def)

declare raw_msg_bsamp_hton_loop.simps [simp del]

definition raw_msg_bsamp_hton :: "endian \<Rightarrow> raw_msg_bsamp \<Rightarrow> raw_msg_bsamp" where
  "raw_msg_bsamp_hton h msg =
     (let msg1 = raw_msg_bsamp_hton_loop h msg 0;
          msg2 = msg1\<lparr>bs_idx := htonl h (bs_idx msg1)\<rparr>;
          msg3 = msg2\<lparr>bs_nchips := htons h (bs_nchips msg2)\<rparr>
      in msg3\<lparr>bs_nlines := htons h (bs_nlines msg3)\<rparr>)"

definition raw_msg_req_hton :: "endian \<Rightarrow> raw_msg_req \<Rightarrow> raw_msg_req" where
  "raw_msg_req_hton h msg =
     (let msg1 = msg\<lparr>r_id := htons h (r_id msg)\<rparr>
      in msg1\<lparr>r_val := htonl h (r_val msg1)\<rparr>)"

definition raw_msg_res_hton :: "endian \<Rightarrow> raw_msg_req \<Rightarrow> raw_msg_req" where
  "raw_msg_res_hton h msg = raw_msg_req_hton h msg"

function raw_msg_bsamp_ntoh_loop :: "endian \<Rightarrow> raw_msg_bsamp \<Rightarrow> nat \<Rightarrow> raw_msg_bsamp" where
  "raw_msg_bsamp_ntoh_loop h msg i =
     (if i < raw_bsamp_nsamps msg then
        raw_msg_bsamp_ntoh_loop h
          (msg\<lparr>bs_samples := (bs_samples msg)(i := ntohs h (bs_samples msg i))\<rparr>) (Suc i)
      else msg)"
  by pat_completeness auto
termination
  by (relation "measure (\<lambda>(h, msg, i). raw_bsamp_nsamps msg - i)")
     (auto simp: raw_bsamp_nsamps_def)

declare raw_msg_bsamp_ntoh_loop.simps [simp del]

definition raw_msg_bsamp_ntoh :: "endian \<Rightarrow> raw_msg_bsamp \<Rightarrow> raw_msg_bsamp" where
  "raw_msg_bsamp_ntoh h msg =
     (let msg1 = msg\<lparr>bs_idx := ntohl h (bs_idx msg)\<rparr>;
          msg2 = msg1\<lparr>bs_nchips := ntohs h (bs_nchips msg1)\<rparr>;
          msg3 = msg2\<lparr>bs_nlines := ntohs h (bs_nlines msg2)\<rparr>
      in raw_msg_bsamp_ntoh_loop h msg3 0)"

definition raw_msg_req_ntoh :: "endian \<Rightarrow> raw_msg_req \<Rightarrow> raw_msg_req" where
  "raw_msg_req_ntoh h msg =
     (let msg1 = msg\<lparr>r_id := ntohs h (r_id msg)\<rparr>
      in msg1\<lparr>r_val := ntohl h (r_val msg1)\<rparr>)"

definition raw_msg_res_ntoh :: "endian \<Rightarrow> raw_msg_req \<Rightarrow> raw_msg_req" where
  "raw_msg_res_ntoh h msg = raw_msg_req_ntoh h msg"


subsection \<open>Send and receive\<close>

text \<open>The system calls \<^verbatim>\<open>send\<close> and \<^verbatim>\<open>recv\<close> are the environment: from the descriptor, the
  buffer, the length, the flags and the current \<^verbatim>\<open>errno\<close> they give the value returned,
  the buffer and \<^verbatim>\<open>errno\<close> afterwards (\<^verbatim>\<open>send\<close> does not write to the buffer, so what it
  gives as buffer is not used).\<close>

record sys_out =
  so_ret :: int
  so_buf :: raw_packet
  so_errno :: int

type_synonym sys_io = "int \<Rightarrow> raw_packet \<Rightarrow> nat \<Rightarrow> int \<Rightarrow> int \<Rightarrow> sys_out"

text \<open>What a call of the codec leaves: the value returned, \<^verbatim>\<open>errno\<close>, the packet buffer
  and the caller's \<^verbatim>\<open>*packtype\<close> (\<open>None\<close> for a null pointer).\<close>

record io_result =
  rr_ret :: int
  rr_errno :: int
  rr_packet :: raw_packet
  rr_packtype :: "u8 option"

definition raw_packet_send ::
  "pkt_types \<Rightarrow> endian \<Rightarrow> sys_io \<Rightarrow> int \<Rightarrow> raw_packet \<Rightarrow> int \<Rightarrow> int \<Rightarrow> io_result" where
  "raw_packet_send T h send_sys sockfd packet flags errno =
     (let packet_size = sizeof_raw_packet;
          conv =
            (if p_type packet = RAW_PKT_TYPE_BSAMP T then
               Some (packet_size + raw_packet_sampsize h packet,
                     set_p_bsamp h (raw_msg_bsamp_hton h (p_bsamp h packet)) packet)
             else if p_type packet = RAW_PKT_TYPE_REQ T then
               Some (packet_size, set_p_req h (raw_msg_req_hton h (p_req h packet)) packet)
             else if p_type packet = RAW_PKT_TYPE_RES T then
               Some (packet_size, set_p_req h (raw_msg_res_hton h (p_req h packet)) packet)
             else if p_type packet = RAW_PKT_TYPE_ERR T then Some (packet_size, packet)
             else None)
      in case conv of
           None \<Rightarrow>
             \<lparr>rr_ret = - 1, rr_errno = EINVAL, rr_packet = packet, rr_packtype = None\<rparr>
         | Some (len, packet1) \<Rightarrow>
             (let r = send_sys sockfd packet1 len flags errno
              in \<lparr>rr_ret = so_ret r, rr_errno = so_errno r, rr_packet = packet1,
                  rr_packtype = None\<rparr>))"

text \<open>\<^verbatim>\<open>raw_packet_recv\<close> in three parts: the lines before the call of \<^verbatim>\<open>recv\<close>, the call,
  the lines after it. First the length it asks \<^verbatim>\<open>recv\<close> for: the sample payload is added
  when the caller expects a board sample, with the dimensions the buffer holds before the
  read.\<close>

definition raw_packet_recv_packsize ::
  "pkt_types \<Rightarrow> endian \<Rightarrow> raw_packet \<Rightarrow> u8 option \<Rightarrow> nat" where
  "raw_packet_recv_packsize T h packet packtype =
     (let packsize = sizeof_raw_packet;
          pt = (case packtype of None \<Rightarrow> 0 | Some t \<Rightarrow> t)
      in if pt = RAW_PKT_TYPE_BSAMP T then packsize + raw_packet_sampsize h packet
         else packsize)"

text \<open>\<^verbatim>\<open>recv\<close> returns a \<^verbatim>\<open>ssize_t\<close> and \<^verbatim>\<open>raw_packet_recv\<close> stores it in \<^verbatim>\<open>int ret\<close>: the
  conversion keeps the low 32 bits, read as a signed number. Returning \<^verbatim>\<open>ret\<close> as a
  \<^verbatim>\<open>ssize_t\<close> again does not change it.\<close>

definition ssize_to_int :: "int \<Rightarrow> int" where
  "ssize_to_int x = (x + 2 ^ 31) mod 2 ^ 32 - 2 ^ 31"

text \<open>The lines of \<^verbatim>\<open>raw_packet_recv\<close> after the call of \<^verbatim>\<open>recv\<close>, on what the call gave.\<close>

definition raw_packet_recv_after ::
  "pkt_types \<Rightarrow> endian \<Rightarrow> sys_out \<Rightarrow> u8 option \<Rightarrow> io_result" where
  "raw_packet_recv_after T h r packtype =
     (let pt = (case packtype of None \<Rightarrow> 0 | Some t \<Rightarrow> t);
          ret = ssize_to_int (so_ret r);
          packet1 = so_buf r
      in if p_magic packet1 \<noteq> PACKET_HEADER_MAGIC then
           \<lparr>rr_ret = - 1, rr_errno = EPROTO, rr_packet = packet1, rr_packtype = packtype\<rparr>
         else if ret = - 1 then
           \<lparr>rr_ret = - 1, rr_errno = so_errno r, rr_packet = packet1, rr_packtype = packtype\<rparr>
         else if pt \<noteq> 0 \<and> pt \<noteq> p_type packet1 then
           \<lparr>rr_ret = - 1, rr_errno = EIO, rr_packet = packet1, rr_packtype = packtype\<rparr>
         else
           (let pt1 = (if pt = 0 then p_type packet1 else pt);
                packtype1 = (case packtype of None \<Rightarrow> None | Some t \<Rightarrow> Some pt1)
            in if pt1 = RAW_PKT_TYPE_BSAMP T then
                 \<lparr>rr_ret = ret, rr_errno = so_errno r,
                  rr_packet = set_p_bsamp h (raw_msg_bsamp_ntoh h (p_bsamp h packet1)) packet1,
                  rr_packtype = packtype1\<rparr>
               else if pt1 = RAW_PKT_TYPE_REQ T then
                 \<lparr>rr_ret = ret, rr_errno = so_errno r,
                  rr_packet = set_p_req h (raw_msg_req_ntoh h (p_req h packet1)) packet1,
                  rr_packtype = packtype1\<rparr>
               else if pt1 = RAW_PKT_TYPE_RES T then
                 \<lparr>rr_ret = ret, rr_errno = so_errno r,
                  rr_packet = set_p_req h (raw_msg_res_ntoh h (p_req h packet1)) packet1,
                  rr_packtype = packtype1\<rparr>
               else if pt1 = RAW_PKT_TYPE_ERR T then
                 \<lparr>rr_ret = ret, rr_errno = so_errno r, rr_packet = packet1,
                  rr_packtype = packtype1\<rparr>
               else
                 \<lparr>rr_ret = - 1, rr_errno = EPROTO, rr_packet = packet1,
                  rr_packtype = packtype1\<rparr>))"

definition raw_packet_recv ::
  "pkt_types \<Rightarrow> endian \<Rightarrow> sys_io \<Rightarrow> int \<Rightarrow> raw_packet \<Rightarrow> u8 option \<Rightarrow> int \<Rightarrow> int \<Rightarrow> io_result"
  where
  "raw_packet_recv T h recv_sys sockfd packet packtype flags errno =
     raw_packet_recv_after T h
       (recv_sys sockfd packet (raw_packet_recv_packsize T h packet packtype) flags errno)
       packtype"

text \<open>Buffers and system calls for concrete runs: the buffer of zero bytes, a system call
  that gives a fixed answer, and one that fails with a given \<^verbatim>\<open>errno\<close> and leaves the
  buffer as it was; a choice of type codes.\<close>

definition zero_mem :: mem where
  "zero_mem = (\<lambda>a. 0)"

definition sys_answer :: "sys_out \<Rightarrow> sys_io" where
  "sys_answer r = (\<lambda>sockfd buf len flags errno. r)"

definition sys_fail :: "int \<Rightarrow> sys_io" where
  "sys_fail e = (\<lambda>sockfd buf len flags errno. \<lparr>so_ret = - 1, so_buf = buf, so_errno = e\<rparr>)"

definition example_types :: pkt_types where
  "example_types =
     \<lparr>RAW_PKT_TYPE_BSAMP = 1, RAW_PKT_TYPE_REQ = 2, RAW_PKT_TYPE_RES = 3, RAW_PKT_TYPE_ERR = 4\<rparr>"


section \<open>The control session\<close>

text \<open>Modelled from the spec: \<^verbatim>\<open>struct control_txn\<close> and its accessor \<^verbatim>\<open>ctxn_req\<close> of the
  missing \<^verbatim>\<open>control-private.h\<close>: a transaction holds a request and the buffer of its
  response, and \<^verbatim>\<open>ctxn_req\<close> gives the request.\<close>

record control_txn =
  ctxn_req :: raw_msg_req
  ctxn_res :: raw_msg_req

text \<open>A stream endpoint (\<^verbatim>\<open>struct bufferevent *\<close>) is known by its address.\<close>

type_synonym bufferevent = nat

datatype side = Client | Dnode

text \<open>The calls the session's code makes to what lies outside it: the mutex and the
  condition variable, \<^verbatim>\<open>bufferevent_free\<close>, \<^verbatim>\<open>free\<close> of the transaction storage, the
  hooks of the two sides, \<^verbatim>\<open>pthread_exit\<close>. \<open>EvTxnsWritten\<close> is no call: it marks the
  label \<^verbatim>\<open>done\<close> of \<^verbatim>\<open>control_set_transactions\<close>, where every write of that function to
  the transaction fields has been made.\<close>

datatype event =
    EvLock
  | EvUnlock
  | EvCondWait
  | EvBevFree bufferevent
  | EvFreeTxns
  | EvTxnsWritten
  | EvCsClose side
  | EvCsThread side
  | EvThreadExit

text \<open>Modelled from the spec: the fields of \<^verbatim>\<open>struct control_session\<close> (missing
  \<^verbatim>\<open>control-private.h\<close>) that the functions below use; \<^verbatim>\<open>ctl_cur_rid\<close> has the width of
  \<^verbatim>\<open>r_id\<close>, a null \<^verbatim>\<open>ctl_txns\<close> is \<open>None\<close>. \<open>trace\<close> is not a field of the struct: it
  records, in program order, the events above.\<close>

record control_session =
  cbev :: "bufferevent option"
  dbev :: "bufferevent option"
  wake_why :: u32
  ctl_txns :: "control_txn list option"
  ctl_n_txns :: nat
  ctl_cur_txn :: int
  ctl_cur_rid :: u16
  trace :: "event list"


text \<open>The tables \<^verbatim>\<open>control_client_ops\<close> and \<^verbatim>\<open>control_dnode_ops\<close>: the hooks used here, each
  of which may be null. A hook gets the session and may change it.\<close>

record control_ops =
  cs_close :: "(control_session \<Rightarrow> control_session) option"
  cs_thread :: "(control_session \<Rightarrow> control_session) option"

text \<open>\<^verbatim>\<open>BEV_EVENT_EOF\<close> and \<^verbatim>\<open>BEV_EVENT_ERROR\<close> of libevent.\<close>

definition BEV_EVENT_EOF :: u16 where "BEV_EVENT_EOF = 0x10"
definition BEV_EVENT_ERROR :: u16 where "BEV_EVENT_ERROR = 0x20"

definition log_event :: "event \<Rightarrow> control_session \<Rightarrow> control_session" where
  "log_event e cs = cs\<lparr>trace := trace cs @ [e]\<rparr>"

text \<open>The pthread wrappers. A pthread call that fails ends the process through
  \<^verbatim>\<open>control_fatal_err\<close>; the calls are taken to succeed. While the worker waits, the
  other threads assert wake bits: \<open>w\<close> is the value of \<^verbatim>\<open>wake_why\<close> found when
  \<^verbatim>\<open>pthread_cond_wait\<close> returns.\<close>

definition control_must_lock :: "control_session \<Rightarrow> control_session" where
  "control_must_lock cs = log_event EvLock cs"

definition control_must_unlock :: "control_session \<Rightarrow> control_session" where
  "control_must_unlock cs = log_event EvUnlock cs"



subsection \<open>Transactions\<close>

text \<open>The loop of \<^verbatim>\<open>control_set_transactions\<close>. The array \<^verbatim>\<open>txns\<close> it writes is the one
  \<^verbatim>\<open>cs->ctl_txns\<close> points to since the assignment before the loop.\<close>

function control_set_transactions_loop ::
  "control_session \<Rightarrow> nat \<Rightarrow> nat \<Rightarrow> fault + control_session" where
  "control_set_transactions_loop cs i n_txns =
     (if i < n_txns then
        (case ctl_txns cs of
           None \<Rightarrow> Inl NullDeref
         | Some txns \<Rightarrow>
             if length txns \<le> i then Inl OutOfBounds
             else control_set_transactions_loop
                    (cs\<lparr>ctl_txns :=
                          Some (txns[i := (txns ! i)\<lparr>ctxn_req :=
                                   (ctxn_req (txns ! i))\<lparr>r_id := ctl_cur_rid cs\<rparr>\<rparr>]),
                        ctl_cur_rid := ctl_cur_rid cs + 1\<rparr>)
                    (Suc i) n_txns)
      else Inr cs)"
  by pat_completeness auto
termination
  by (relation "measure (\<lambda>(cs, i, n_txns). n_txns - i)") auto

declare control_set_transactions_loop.simps [simp del]

definition control_set_transactions ::
  "control_session \<Rightarrow> control_txn list option \<Rightarrow> nat \<Rightarrow> bool \<Rightarrow> fault + control_session"
  where
  "control_set_transactions cs txns n_txns have_lock =
     (let cs1 = (if \<not> have_lock then control_must_lock cs else cs)
      in if \<not> ((ctl_txns cs1 = None \<and> ctl_cur_txn cs1 = - 1 \<and> ctl_n_txns cs1 = 0) \<or>
                (txns = None \<and> n_txns = 0))
         then Inl AssertionFailed
         else
           (let cs2 = (if ctl_txns cs1 \<noteq> None then log_event EvFreeTxns cs1 else cs1);
                cs3 = cs2\<lparr>ctl_txns := txns, ctl_n_txns := n_txns\<rparr>;
                stamped =
                  (if n_txns = 0 then Inr (cs3\<lparr>ctl_cur_txn := - 1\<rparr>)
                   else control_set_transactions_loop (cs3\<lparr>ctl_cur_txn := 0\<rparr>) 0 n_txns)
            in case stamped of
                 Inl f \<Rightarrow> Inl f
               | Inr cs4 \<Rightarrow>
                   (let cs5 = log_event EvTxnsWritten cs4
                    in Inr (if \<not> have_lock then control_must_unlock cs5 else cs5))))"

text \<open>Modelled from the spec: \<^verbatim>\<open>control_clear_transactions\<close> of the missing
  \<^verbatim>\<open>control-private.h\<close>, in the words of the specification
  \<open>clear(session, free_storage?)\<close>, the convenience for setting the empty list, which
  optionally releases the backing storage. Setting the empty list is
  \<^verbatim>\<open>control_set_transactions\<close> with a null list and a count of 0, which releases the storage
  of the list it replaces; when the storage is to be kept, the list is detached from the
  session first. The specification does not say what the helper tells
  \<^verbatim>\<open>control_set_transactions\<close> about the mutex: that is the parameter \<open>holding\<close>, which
  stands for either choice.\<close>

definition control_clear_transactions ::
  "bool \<Rightarrow> control_session \<Rightarrow> bool \<Rightarrow> fault + control_session" where
  "control_clear_transactions holding cs free_storage =
     (if free_storage then control_set_transactions cs None 0 holding
      else control_set_transactions (cs\<lparr>ctl_txns := None\<rparr>) None 0 holding)"


subsection \<open>Closing a connection\<close>


definition control_dnode_close ::
  "bool \<Rightarrow> control_ops \<Rightarrow> control_session \<Rightarrow> fault + control_session" where
  "control_dnode_close holding dnode_ops cs =
     (let cs1 = control_must_lock cs
      in case dbev cs1 of
           None \<Rightarrow> Inl AssertionFailed
         | Some bev \<Rightarrow>
             (let cs2 = (log_event (EvBevFree bev) cs1)\<lparr>dbev := None\<rparr>;
                  cleared =
                    (if ctl_txns cs2 \<noteq> None then control_clear_transactions holding cs2 True
                     else Inr cs2)
              in case cleared of
                   Inl f \<Rightarrow> Inl f
                 | Inr cs3 \<Rightarrow>
                     (let cs4 = control_must_unlock cs3
                      in case cs_close dnode_ops of
                           None \<Rightarrow> Inr cs4
                         | Some hook \<Rightarrow> Inr (hook (log_event (EvCsClose Dnode) cs4)))))"

definition control_bevt_handler ::
  "control_session \<Rightarrow> u16 \<Rightarrow> (control_session \<Rightarrow> fault + control_session) \<Rightarrow>
   fault + control_session" where
  "control_bevt_handler cs events on_close =
     (if events AND BEV_EVENT_EOF \<noteq> 0 \<or> events AND BEV_EVENT_ERROR \<noteq> 0 then on_close cs
      else Inr cs)"


definition control_dnode_event ::
  "bool \<Rightarrow> control_ops \<Rightarrow> bufferevent option \<Rightarrow> u16 \<Rightarrow> control_session \<Rightarrow>
   fault + control_session" where
  "control_dnode_event holding dnode_ops bev events cs =
     (if bev \<noteq> dbev cs then Inl AssertionFailed
      else control_bevt_handler cs events (control_dnode_close holding dnode_ops))"


subsection \<open>The worker thread\<close>
















section \<open>Byte order: conversions that undo each other\<close>

lemma host_u16_bytes: "host_u16 h (host_byte16 h 0 v) (host_byte16 h (Suc 0) v) = v"
  by (cases h; simp add: host_u16_def host_byte16_def; rule bit_word_eqI;
      auto simp: bit_simps dest: bit_imp_le_length)

lemma host_byte16_0: "host_byte16 h 0 (host_u16 h a b) = a"
  by (cases h; simp add: host_u16_def host_byte16_def; rule bit_word_eqI;
      auto simp: bit_simps dest: bit_imp_le_length)

lemma host_byte16_1: "host_byte16 h (Suc 0) (host_u16 h a b) = b"
  by (cases h; simp add: host_u16_def host_byte16_def; rule bit_word_eqI;
      auto simp: bit_simps dest: bit_imp_le_length)

lemma host_u32_bytes:
  "host_u32 h (host_byte32 h 0 v) (host_byte32 h (Suc 0) v) (host_byte32 h 2 v) (host_byte32 h 3 v) = v"
  apply (cases h; simp add: host_u32_def host_byte32_def; rule bit_word_eqI;
      auto simp: bit_simps dest: bit_imp_le_length)
  subgoal for n by (cases "16 \<le> n"; simp)
  subgoal for n by (cases "16 \<le> n"; cases "24 \<le> n"; simp)
  subgoal for n by (cases "16 \<le> n"; simp)
  subgoal for n by (cases "16 \<le> n"; cases "24 \<le> n"; simp)
  done

lemma host_byte32_0: "host_byte32 h 0 (host_u32 h a b c d) = a"
  by (cases h; simp add: host_u32_def host_byte32_def; rule bit_word_eqI;
      auto simp: bit_simps dest: bit_imp_le_length)
lemma host_byte32_1: "host_byte32 h (Suc 0) (host_u32 h a b c d) = b"
  by (cases h; simp add: host_u32_def host_byte32_def; rule bit_word_eqI;
      auto simp: bit_simps dest: bit_imp_le_length)
lemma host_byte32_2: "host_byte32 h 2 (host_u32 h a b c d) = c"
  by (cases h; simp add: host_u32_def host_byte32_def; rule bit_word_eqI;
      auto simp: bit_simps dest: bit_imp_le_length)
lemma host_byte32_3: "host_byte32 h 3 (host_u32 h a b c d) = d"
  by (cases h; simp add: host_u32_def host_byte32_def; rule bit_word_eqI;
      auto simp: bit_simps dest: bit_imp_le_length)

lemma ntohs_htons: "ntohs h (htons h v) = v"
  by (simp add: ntohs_def htons_def host_byte16_0 host_byte16_1 host_u16_bytes)

lemma ntohl_htonl: "ntohl h (htonl h v) = v"
  by (simp add: ntohl_def htonl_def host_byte32_0 host_byte32_1 host_byte32_2 host_byte32_3
      host_u32_bytes)

lemma hton_loop_closed:
  "raw_msg_bsamp_hton_loop h msg i =
     msg\<lparr>bs_samples := (\<lambda>k. if i \<le> k \<and> k < raw_bsamp_nsamps msg
                            then htons h (bs_samples msg k) else bs_samples msg k)\<rparr>"
proof (induction h msg i rule: raw_msg_bsamp_hton_loop.induct)
  case (1 h msg i)
  show ?case
  proof (cases "i < raw_bsamp_nsamps msg")
    case True
    have n: "raw_bsamp_nsamps (msg\<lparr>bs_samples := (bs_samples msg)(i := htons h (bs_samples msg i))\<rparr>)
               = raw_bsamp_nsamps msg"
      by (simp add: raw_bsamp_nsamps_def)
    show ?thesis
      apply (subst raw_msg_bsamp_hton_loop.simps)
      apply (simp only: True if_True "1.IH"[OF True] n)
      apply (rule raw_msg_bsamp.equality; simp)
      apply (rule ext)
      using True apply auto
      done
  next
    case False
    then show ?thesis
      by (subst raw_msg_bsamp_hton_loop.simps) (auto intro!: raw_msg_bsamp.equality ext)
  qed
qed

lemma ntoh_loop_closed:
  "raw_msg_bsamp_ntoh_loop h msg i =
     msg\<lparr>bs_samples := (\<lambda>k. if i \<le> k \<and> k < raw_bsamp_nsamps msg
                            then ntohs h (bs_samples msg k) else bs_samples msg k)\<rparr>"
proof (induction h msg i rule: raw_msg_bsamp_ntoh_loop.induct)
  case (1 h msg i)
  show ?case
  proof (cases "i < raw_bsamp_nsamps msg")
    case True
    have n: "raw_bsamp_nsamps (msg\<lparr>bs_samples := (bs_samples msg)(i := ntohs h (bs_samples msg i))\<rparr>)
               = raw_bsamp_nsamps msg"
      by (simp add: raw_bsamp_nsamps_def)
    show ?thesis
      apply (subst raw_msg_bsamp_ntoh_loop.simps)
      apply (simp only: True if_True "1.IH"[OF True] n)
      apply (rule raw_msg_bsamp.equality; simp)
      apply (rule ext)
      using True apply auto
      done
  next
    case False
    then show ?thesis
      by (subst raw_msg_bsamp_ntoh_loop.simps) (auto intro!: raw_msg_bsamp.equality ext)
  qed
qed


lemma raw_msg_bsamp_hton_closed:
  "raw_msg_bsamp_hton h msg =
     \<lparr>bs_idx = htonl h (bs_idx msg), bs_nchips = htons h (bs_nchips msg),
      bs_nlines = htons h (bs_nlines msg),
      bs_samples = (\<lambda>i. if i < unat (bs_nchips msg) * unat (bs_nlines msg)
                         then htons h (bs_samples msg i) else bs_samples msg i)\<rparr>"
  unfolding raw_msg_bsamp_hton_def hton_loop_closed Let_def raw_bsamp_nsamps_def
  by (rule raw_msg_bsamp.equality; simp cong: if_cong)

lemma raw_msg_bsamp_ntoh_closed:
  "raw_msg_bsamp_ntoh h msg =
     \<lparr>bs_idx = ntohl h (bs_idx msg), bs_nchips = ntohs h (bs_nchips msg),
      bs_nlines = ntohs h (bs_nlines msg),
      bs_samples = (\<lambda>i. if i < unat (ntohs h (bs_nchips msg)) * unat (ntohs h (bs_nlines msg))
                         then ntohs h (bs_samples msg i) else bs_samples msg i)\<rparr>"
  unfolding raw_msg_bsamp_ntoh_def ntoh_loop_closed Let_def raw_bsamp_nsamps_def
  by (rule raw_msg_bsamp.equality; simp cong: if_cong)

text \<open>
  Claim C2. In the board-sample codec the sample loop of the send side runs before the
  index and the dimensions are converted to network order, and on the receive side the
  dimensions are converted to host order before the sample loop runs: the number of
  samples converted is \<open>nchips \<times> nlines\<close> read in host byte order in both directions (the
  dimensions of the message as given on send, the converted dimensions on receive).
  Receiving what was sent therefore gives the message back.
\<close>

theorem bsamp_codec_sample_count_host_order:
  "raw_msg_bsamp_hton h msg =
     \<lparr>bs_idx = htonl h (bs_idx msg), bs_nchips = htons h (bs_nchips msg),
      bs_nlines = htons h (bs_nlines msg),
      bs_samples = (\<lambda>i. if i < unat (bs_nchips msg) * unat (bs_nlines msg)
                         then htons h (bs_samples msg i) else bs_samples msg i)\<rparr>
   \<and> raw_msg_bsamp_ntoh h msg =
     \<lparr>bs_idx = ntohl h (bs_idx msg), bs_nchips = ntohs h (bs_nchips msg),
      bs_nlines = ntohs h (bs_nlines msg),
      bs_samples = (\<lambda>i. if i < unat (ntohs h (bs_nchips msg)) * unat (ntohs h (bs_nlines msg))
                         then ntohs h (bs_samples msg i) else bs_samples msg i)\<rparr>
   \<and> raw_msg_bsamp_ntoh h (raw_msg_bsamp_hton h msg) = msg"
proof -
  have rt: "raw_msg_bsamp_ntoh h (raw_msg_bsamp_hton h msg) = msg"
    unfolding raw_msg_bsamp_ntoh_closed
    unfolding raw_msg_bsamp_hton_closed
    by (rule raw_msg_bsamp.equality; simp add: ntohs_htons ntohl_htonl fun_eq_iff cong: if_cong)
  show ?thesis
    using rt raw_msg_bsamp_hton_closed[of h msg] raw_msg_bsamp_ntoh_closed[of h msg]
    by blast
qed


section \<open>Initialisation and copy of packets\<close>

text \<open>
  Claim C8, as amended. \<^verbatim>\<open>raw_packet_init\<close> writes the magic \<open>0x5A\<close>, the protocol version
  \<open>0x00\<close> and the given type and flags into the header, and leaves every byte of the
  payload as it was: the function has four assignments and clears nothing.
\<close>

theorem raw_packet_init_header_only:
  "p_magic (raw_packet_init packet type flags) = 0x5A \<and>
   p_proto_vers (raw_packet_init packet type flags) = 0x00 \<and>
   p_type (raw_packet_init packet type flags) = type \<and>
   p_flags (raw_packet_init packet type flags) = flags \<and>
   p (raw_packet_init packet type flags) = p packet"
  by (simp add: raw_packet_init_def PACKET_HEADER_MAGIC_def PACKET_HEADER_PROTO_VERS_def)

text \<open>
  The claim as stated, that the rest of the packet is zeroed, fails on a packet whose first
  payload byte is \<open>0xFF\<close>: the byte is still \<open>0xFF\<close> after the initialisation.
\<close>

theorem raw_packet_init_payload_counterexample:
  "p (raw_packet_init
        \<lparr>p_magic = 0, p_proto_vers = 0, p_type = 0, p_flags = 0, p = zero_mem(0 := 0xFF)\<rparr>
        2 0) 0 = 0xFF"
  by (simp add: raw_packet_init_def)

text \<open>
  Claim C10. \<^verbatim>\<open>raw_packet_copy\<close> writes into the destination the header of the source and
  the payload bytes of the type of the source, and no other byte: for an error packet no
  payload byte changes, for a request or a response the first \<^verbatim>\<open>sizeof(struct raw_msg_req)\<close>
  payload bytes are those of the source, for a board sample the bytes of the board-sample
  struct and of its \<open>nchips \<times> nlines\<close> samples of two bytes; every byte behind them is
  the byte the destination had.
\<close>

theorem raw_packet_copy_frame:
  assumes "pkt_types_ok T"
  shows
    "(p_type src = RAW_PKT_TYPE_ERR T \<longrightarrow>
        (\<exists>dst'. raw_packet_copy T h dst src = Inr dst' \<and>
           p_magic dst' = p_magic src \<and> p_proto_vers dst' = p_proto_vers src \<and>
           p_type dst' = p_type src \<and> p_flags dst' = p_flags src \<and>
           p dst' = p dst)) \<and>
     (p_type src = RAW_PKT_TYPE_REQ T \<or> p_type src = RAW_PKT_TYPE_RES T \<longrightarrow>
        (\<exists>dst'. raw_packet_copy T h dst src = Inr dst' \<and>
           p_magic dst' = p_magic src \<and> p_proto_vers dst' = p_proto_vers src \<and>
           p_type dst' = p_type src \<and> p_flags dst' = p_flags src \<and>
           (\<forall>a. p dst' a = (if a < sizeof_raw_msg_req then p src a else p dst a)))) \<and>
     (p_type src = RAW_PKT_TYPE_BSAMP T \<longrightarrow>
        (\<exists>dst'. raw_packet_copy T h dst src = Inr dst' \<and>
           p_magic dst' = p_magic src \<and> p_proto_vers dst' = p_proto_vers src \<and>
           p_type dst' = p_type src \<and> p_flags dst' = p_flags src \<and>
           (\<forall>a. p dst' a =
              (if a < sizeof_raw_msg_bsamp +
                      unat (bs_nchips (p_bsamp h src)) * unat (bs_nlines (p_bsamp h src)) * 2
               then p src a else p dst a))))"
  using assms
  by (auto simp: raw_packet_copy_def pkt_types_ok_def Let_def memcpy_def
      raw_packet_sampsize_def raw_bsamp_nsamps_def sizeof_raw_samp_t_def)

theorem raw_packet_copy_frame_witness:
  "pkt_types_ok example_types \<and>
   (\<exists>dst'. raw_packet_copy example_types LittleEndian
              \<lparr>p_magic = 0, p_proto_vers = 0, p_type = 0, p_flags = 0, p = zero_mem(0 := 0x77)\<rparr>
              \<lparr>p_magic = 0x5A, p_proto_vers = 0, p_type = 4, p_flags = 1, p = zero_mem(0 := 0x11)\<rparr>
            = Inr dst' \<and> p_type dst' = 4 \<and> p dst' 0 = 0x77) \<and>
   (\<exists>dst'. raw_packet_copy example_types LittleEndian
              \<lparr>p_magic = 0, p_proto_vers = 0, p_type = 0, p_flags = 0,
               p = zero_mem(7 := 0x77, 8 := 0x78)\<rparr>
              \<lparr>p_magic = 0x5A, p_proto_vers = 0, p_type = 2, p_flags = 0,
               p = zero_mem(7 := 0x11, 8 := 0x12)\<rparr>
            = Inr dst' \<and> p_type dst' = 2 \<and> p dst' 7 = 0x11 \<and> p dst' 8 = 0x78) \<and>
   (\<exists>dst'. raw_packet_copy example_types LittleEndian
              \<lparr>p_magic = 0, p_proto_vers = 0, p_type = 0, p_flags = 0,
               p = zero_mem(9 := 0x77, 10 := 0x78)\<rparr>
              \<lparr>p_magic = 0x5A, p_proto_vers = 0, p_type = 1, p_flags = 0,
               p = zero_mem(4 := 1, 6 := 1, 9 := 0x11, 10 := 0x12)\<rparr>
            = Inr dst' \<and> p_type dst' = 1 \<and> p dst' 9 = 0x11 \<and> p dst' 10 = 0x78)"
proof -
  have ok: "pkt_types_ok example_types"
    by (simp add: pkt_types_ok_def example_types_def)
  note f = raw_packet_copy_frame [OF ok, where h = LittleEndian]
  have nc: "unat (host_u16 LittleEndian 1 0) = 1"
    by (simp add: host_u16_def)
  show ?thesis
    using ok
      f [of "\<lparr>p_magic = 0x5A, p_proto_vers = 0, p_type = 4, p_flags = 1, p = zero_mem(0 := 0x11)\<rparr>"
            "\<lparr>p_magic = 0, p_proto_vers = 0, p_type = 0, p_flags = 0, p = zero_mem(0 := 0x77)\<rparr>"]
      f [of "\<lparr>p_magic = 0x5A, p_proto_vers = 0, p_type = 2, p_flags = 0,
               p = zero_mem(7 := 0x11, 8 := 0x12)\<rparr>"
            "\<lparr>p_magic = 0, p_proto_vers = 0, p_type = 0, p_flags = 0,
               p = zero_mem(7 := 0x77, 8 := 0x78)\<rparr>"]
      f [of "\<lparr>p_magic = 0x5A, p_proto_vers = 0, p_type = 1, p_flags = 0,
               p = zero_mem(4 := 1, 6 := 1, 9 := 0x11, 10 := 0x12)\<rparr>"
            "\<lparr>p_magic = 0, p_proto_vers = 0, p_type = 0, p_flags = 0,
               p = zero_mem(9 := 0x77, 10 := 0x78)\<rparr>"]
    by (auto simp: example_types_def sizeof_raw_msg_req_def sizeof_raw_msg_bsamp_def
        p_bsamp_def ld16_def zero_mem_def nc)
qed


section \<open>Receiving a packet\<close>

lemma ld16_st16: "ld16 h (st16 h a v m) a = v"
  by (simp add: ld16_def st16_def host_u16_bytes)

lemma ld32_st32: "ld32 h (st32 h a v m) a = v"
  by (simp add: ld32_def st32_def host_u32_bytes)

lemma ntohs_host_u16: "ntohs h (host_u16 h b0 b1) = host_u16 BigEndian b0 b1"
  by (simp add: ntohs_def host_byte16_0 host_byte16_1)

lemma ntohl_host_u32: "ntohl h (host_u32 h b0 b1 b2 b3) = host_u32 BigEndian b0 b1 b2 b3"
  by (simp add: ntohl_def host_byte32_0 host_byte32_1 host_byte32_2 host_byte32_3)

lemma p_req_set_p_req: "p_req h (set_p_req h m pk) = m"
  by (simp add: p_req_def set_p_req_def ld16_def ld32_def st16_def st32_def
      host_u16_bytes host_u32_bytes)

lemma set_p_req_frame:
  "p_magic (set_p_req h m pk) = p_magic pk" "p_proto_vers (set_p_req h m pk) = p_proto_vers pk"
  "p_type (set_p_req h m pk) = p_type pk" "p_flags (set_p_req h m pk) = p_flags pk"
  "8 \<le> a \<Longrightarrow> p (set_p_req h m pk) a = p pk a"
  by (simp_all add: set_p_req_def st16_def st32_def)

lemma p_bsamp_set_p_bsamp: "p_bsamp h (set_p_bsamp h m pk) = m"
  by (rule raw_msg_bsamp.equality)
     (simp_all add: p_bsamp_def set_p_bsamp_def ld16_def ld32_def st16_def st32_def
        host_u16_bytes host_u32_bytes fun_eq_iff)

lemma set_p_bsamp_frame:
  "p_magic (set_p_bsamp h m pk) = p_magic pk"
  "p_proto_vers (set_p_bsamp h m pk) = p_proto_vers pk"
  "p_type (set_p_bsamp h m pk) = p_type pk" "p_flags (set_p_bsamp h m pk) = p_flags pk"
  by (simp_all add: set_p_bsamp_def)

lemma ssize_to_int_id: "- (2 ^ 31) \<le> x \<Longrightarrow> x < 2 ^ 31 \<Longrightarrow> ssize_to_int x = x"
  by (simp add: ssize_to_int_def)

lemma recv_req_decoded:
  "p_req h (set_p_req h (raw_msg_req_ntoh h (p_req h pk)) pk) =
     \<lparr>r_id = host_u16 BigEndian (p pk 0) (p pk 1), r_type = p pk 2, r_addr = p pk 3,
      r_val = host_u32 BigEndian (p pk 4) (p pk 5) (p pk 6) (p pk 7)\<rparr>"
  by (simp add: p_req_set_p_req)
     (simp add: p_req_def raw_msg_req_ntoh_def Let_def ld16_def ld32_def ntohs_host_u16
        ntohl_host_u32)

lemma recv_bsamp_decoded:
  "p_bsamp h (set_p_bsamp h (raw_msg_bsamp_ntoh h (p_bsamp h pk)) pk) =
     \<lparr>bs_idx = host_u32 BigEndian (p pk 0) (p pk 1) (p pk 2) (p pk 3),
      bs_nchips = host_u16 BigEndian (p pk 4) (p pk 5),
      bs_nlines = host_u16 BigEndian (p pk 6) (p pk 7),
      bs_samples =
        (\<lambda>i. if i < unat (host_u16 BigEndian (p pk 4) (p pk 5)) *
                      unat (host_u16 BigEndian (p pk 6) (p pk 7))
             then host_u16 BigEndian (p pk (8 + 2 * i)) (p pk (9 + 2 * i))
             else host_u16 h (p pk (8 + 2 * i)) (p pk (9 + 2 * i)))\<rparr>"
  by (simp add: p_bsamp_set_p_bsamp raw_msg_bsamp_ntoh_closed)
     (simp add: p_bsamp_def ld16_def ld32_def ntohs_host_u16 ntohl_host_u32 fun_eq_iff
        numeral_2_eq_2 [symmetric])

text \<open>
  Claim C1, as amended. With \<open>r\<close> what \<^verbatim>\<open>recv\<close> gave, \<open>ret\<close> its return value as stored in
  \<^verbatim>\<open>int ret\<close> (the value itself whenever it fits an \<^verbatim>\<open>int\<close>) and \<open>res\<close> what
  \<^verbatim>\<open>raw_packet_recv\<close> leaves: if the magic byte of the buffer is not \<open>0x5A\<close> the call fails
  with \<^verbatim>\<open>EPROTO\<close> and the buffer is as \<^verbatim>\<open>recv\<close> left it (nothing is converted); if the magic
  is right and \<open>ret\<close> is \<open>-1\<close>, the call returns \<open>-1\<close> with \<^verbatim>\<open>errno\<close>, the buffer and
  \<^verbatim>\<open>*packtype\<close> as \<^verbatim>\<open>recv\<close> left them; otherwise a \<^verbatim>\<open>*packtype\<close> of 0 is set to the type
  received, a non-zero one that differs from the type received makes the call fail with
  \<^verbatim>\<open>EIO\<close>, a type received that is none of the four makes it fail with \<^verbatim>\<open>EPROTO\<close>, and
  for the four types \<open>ret\<close> is returned and the payload is in host order. That is: the
  header is kept; the board sample read from the result has \<^verbatim>\<open>bs_idx\<close> as bytes 0 to 3
  of the payload spell it in network order, \<^verbatim>\<open>bs_nchips\<close> and \<^verbatim>\<open>bs_nlines\<close> as bytes 4, 5
  and 6, 7 spell them, and sample \<open>i\<close> as bytes \<open>8 + 2i\<close> and \<open>9 + 2i\<close> spell it, for every
  \<open>i\<close> below \<open>nchips \<times> nlines\<close> (the samples beyond are as received); a request or a
  response read from the result has \<^verbatim>\<open>r_id\<close> as bytes 0 and 1 spell it in network order,
  \<^verbatim>\<open>r_type\<close> and \<^verbatim>\<open>r_addr\<close> bytes 2 and 3, \<^verbatim>\<open>r_val\<close> as bytes 4 to 7 spell it, and the
  bytes from 8 on are as received; an error packet is as received.
\<close>

theorem raw_packet_recv_outcomes:
  assumes T: "pkt_types_ok T"
    and r: "r = recv_sys sockfd packet (raw_packet_recv_packsize T h packet packtype) flags errno"
    and res: "res = raw_packet_recv T h recv_sys sockfd packet packtype flags errno"
    and buf: "buf = so_buf r"
    and ret: "ret = ssize_to_int (so_ret r)"
  shows
    "(p_magic buf \<noteq> 0x5A \<longrightarrow>
        rr_ret res = - 1 \<and> rr_errno res = EPROTO \<and> rr_packet res = buf \<and>
        rr_packtype res = packtype) \<and>
     (p_magic buf = 0x5A \<and> ret = - 1 \<longrightarrow>
        rr_ret res = - 1 \<and> rr_errno res = so_errno r \<and> rr_packet res = buf \<and>
        rr_packtype res = packtype) \<and>
     (p_magic buf = 0x5A \<and> ret \<noteq> - 1 \<longrightarrow>
        (packtype = Some 0 \<longrightarrow> rr_packtype res = Some (p_type buf)) \<and>
        (\<forall>t. packtype = Some t \<and> t \<noteq> 0 \<and> t \<noteq> p_type buf \<longrightarrow>
           rr_ret res = - 1 \<and> rr_errno res = EIO \<and> rr_packet res = buf \<and>
           rr_packtype res = packtype) \<and>
        ((case packtype of None \<Rightarrow> True | Some t \<Rightarrow> t = 0 \<or> t = p_type buf) \<longrightarrow>
           (p_type buf \<notin> {RAW_PKT_TYPE_BSAMP T, RAW_PKT_TYPE_REQ T,
                            RAW_PKT_TYPE_RES T, RAW_PKT_TYPE_ERR T} \<longrightarrow>
              rr_ret res = - 1 \<and> rr_errno res = EPROTO \<and> rr_packet res = buf) \<and>
           (p_type buf = RAW_PKT_TYPE_BSAMP T \<longrightarrow>
              rr_ret res = ret \<and> rr_errno res = so_errno r \<and>
              rr_packet res = set_p_bsamp h (raw_msg_bsamp_ntoh h (p_bsamp h buf)) buf \<and>
              p_magic (rr_packet res) = p_magic buf \<and>
              p_proto_vers (rr_packet res) = p_proto_vers buf \<and>
              p_type (rr_packet res) = p_type buf \<and> p_flags (rr_packet res) = p_flags buf \<and>
              p_bsamp h (rr_packet res) =
                \<lparr>bs_idx = host_u32 BigEndian (p buf 0) (p buf 1) (p buf 2) (p buf 3),
                 bs_nchips = host_u16 BigEndian (p buf 4) (p buf 5),
                 bs_nlines = host_u16 BigEndian (p buf 6) (p buf 7),
                 bs_samples =
                   (\<lambda>i. if i < unat (host_u16 BigEndian (p buf 4) (p buf 5)) *
                                 unat (host_u16 BigEndian (p buf 6) (p buf 7))
                        then host_u16 BigEndian (p buf (8 + 2 * i)) (p buf (9 + 2 * i))
                        else host_u16 h (p buf (8 + 2 * i)) (p buf (9 + 2 * i)))\<rparr>) \<and>
           (p_type buf = RAW_PKT_TYPE_REQ T \<or> p_type buf = RAW_PKT_TYPE_RES T \<longrightarrow>
              rr_ret res = ret \<and> rr_errno res = so_errno r \<and>
              p_magic (rr_packet res) = p_magic buf \<and>
              p_proto_vers (rr_packet res) = p_proto_vers buf \<and>
              p_type (rr_packet res) = p_type buf \<and> p_flags (rr_packet res) = p_flags buf \<and>
              p_req h (rr_packet res) =
                \<lparr>r_id = host_u16 BigEndian (p buf 0) (p buf 1), r_type = p buf 2,
                 r_addr = p buf 3,
                 r_val = host_u32 BigEndian (p buf 4) (p buf 5) (p buf 6) (p buf 7)\<rparr> \<and>
              (\<forall>a\<ge>8. p (rr_packet res) a = p buf a)) \<and>
           (p_type buf = RAW_PKT_TYPE_REQ T \<longrightarrow>
              rr_packet res = set_p_req h (raw_msg_req_ntoh h (p_req h buf)) buf) \<and>
           (p_type buf = RAW_PKT_TYPE_RES T \<longrightarrow>
              rr_packet res = set_p_req h (raw_msg_res_ntoh h (p_req h buf)) buf) \<and>
           (p_type buf = RAW_PKT_TYPE_ERR T \<longrightarrow>
              rr_ret res = ret \<and> rr_errno res = so_errno r \<and> rr_packet res = buf))) \<and>
     (- (2 ^ 31) \<le> so_ret r \<and> so_ret r < 2 ^ 31 \<longrightarrow> ret = so_ret r)"
proof -
  define pt where "pt = (case packtype of None \<Rightarrow> 0 | Some t \<Rightarrow> t)"
  define pt1 where "pt1 = (if pt = 0 then p_type buf else pt)"
  define packtype1 where "packtype1 = (case packtype of None \<Rightarrow> None | Some t \<Rightarrow> Some pt1)"
  have eq: "res =
     (if p_magic buf \<noteq> PACKET_HEADER_MAGIC then
        \<lparr>rr_ret = - 1, rr_errno = EPROTO, rr_packet = buf, rr_packtype = packtype\<rparr>
      else if ret = - 1 then
        \<lparr>rr_ret = - 1, rr_errno = so_errno r, rr_packet = buf, rr_packtype = packtype\<rparr>
      else if pt \<noteq> 0 \<and> pt \<noteq> p_type buf then
        \<lparr>rr_ret = - 1, rr_errno = EIO, rr_packet = buf, rr_packtype = packtype\<rparr>
      else if pt1 = RAW_PKT_TYPE_BSAMP T then
        \<lparr>rr_ret = ret, rr_errno = so_errno r,
         rr_packet = set_p_bsamp h (raw_msg_bsamp_ntoh h (p_bsamp h buf)) buf,
         rr_packtype = packtype1\<rparr>
      else if pt1 = RAW_PKT_TYPE_REQ T then
        \<lparr>rr_ret = ret, rr_errno = so_errno r,
         rr_packet = set_p_req h (raw_msg_req_ntoh h (p_req h buf)) buf,
         rr_packtype = packtype1\<rparr>
      else if pt1 = RAW_PKT_TYPE_RES T then
        \<lparr>rr_ret = ret, rr_errno = so_errno r,
         rr_packet = set_p_req h (raw_msg_res_ntoh h (p_req h buf)) buf,
         rr_packtype = packtype1\<rparr>
      else if pt1 = RAW_PKT_TYPE_ERR T then
        \<lparr>rr_ret = ret, rr_errno = so_errno r, rr_packet = buf, rr_packtype = packtype1\<rparr>
      else
        \<lparr>rr_ret = - 1, rr_errno = EPROTO, rr_packet = buf, rr_packtype = packtype1\<rparr>)"
    unfolding res raw_packet_recv_def raw_packet_recv_after_def Let_def pt_def pt1_def
      packtype1_def buf ret r ..
  have magic: "PACKET_HEADER_MAGIC = 0x5A"
    by (simp add: PACKET_HEADER_MAGIC_def)
  have d: "RAW_PKT_TYPE_BSAMP T \<noteq> RAW_PKT_TYPE_REQ T" "RAW_PKT_TYPE_BSAMP T \<noteq> RAW_PKT_TYPE_RES T"
    "RAW_PKT_TYPE_BSAMP T \<noteq> RAW_PKT_TYPE_ERR T" "RAW_PKT_TYPE_REQ T \<noteq> RAW_PKT_TYPE_RES T"
    "RAW_PKT_TYPE_REQ T \<noteq> RAW_PKT_TYPE_ERR T" "RAW_PKT_TYPE_RES T \<noteq> RAW_PKT_TYPE_ERR T"
    using T by (simp_all add: pkt_types_ok_def)
  have c1: "p_magic buf \<noteq> 0x5A \<longrightarrow>
        rr_ret res = - 1 \<and> rr_errno res = EPROTO \<and> rr_packet res = buf \<and>
        rr_packtype res = packtype"
    by (simp add: eq magic)
  have c2: "p_magic buf = 0x5A \<and> ret = - 1 \<longrightarrow>
        rr_ret res = - 1 \<and> rr_errno res = so_errno r \<and> rr_packet res = buf \<and>
        rr_packtype res = packtype"
    by (simp add: eq magic)
  have c3: "packtype = Some 0 \<longrightarrow> rr_packtype res = Some (p_type buf)"
    if "p_magic buf = 0x5A \<and> ret \<noteq> - 1"
    using that by (simp add: eq magic pt_def pt1_def packtype1_def)
  have c4: "\<forall>t. packtype = Some t \<and> t \<noteq> 0 \<and> t \<noteq> p_type buf \<longrightarrow>
           rr_ret res = - 1 \<and> rr_errno res = EIO \<and> rr_packet res = buf \<and>
           rr_packtype res = packtype"
    if "p_magic buf = 0x5A \<and> ret \<noteq> - 1"
    using that by (simp add: eq magic pt_def)
  have c5: "(p_type buf \<notin> {RAW_PKT_TYPE_BSAMP T, RAW_PKT_TYPE_REQ T,
                            RAW_PKT_TYPE_RES T, RAW_PKT_TYPE_ERR T} \<longrightarrow>
              rr_ret res = - 1 \<and> rr_errno res = EPROTO \<and> rr_packet res = buf) \<and>
           (p_type buf = RAW_PKT_TYPE_BSAMP T \<longrightarrow>
              rr_ret res = ret \<and> rr_errno res = so_errno r \<and>
              rr_packet res = set_p_bsamp h (raw_msg_bsamp_ntoh h (p_bsamp h buf)) buf \<and>
              p_magic (rr_packet res) = p_magic buf \<and>
              p_proto_vers (rr_packet res) = p_proto_vers buf \<and>
              p_type (rr_packet res) = p_type buf \<and> p_flags (rr_packet res) = p_flags buf \<and>
              p_bsamp h (rr_packet res) =
                \<lparr>bs_idx = host_u32 BigEndian (p buf 0) (p buf 1) (p buf 2) (p buf 3),
                 bs_nchips = host_u16 BigEndian (p buf 4) (p buf 5),
                 bs_nlines = host_u16 BigEndian (p buf 6) (p buf 7),
                 bs_samples =
                   (\<lambda>i. if i < unat (host_u16 BigEndian (p buf 4) (p buf 5)) *
                                 unat (host_u16 BigEndian (p buf 6) (p buf 7))
                        then host_u16 BigEndian (p buf (8 + 2 * i)) (p buf (9 + 2 * i))
                        else host_u16 h (p buf (8 + 2 * i)) (p buf (9 + 2 * i)))\<rparr>) \<and>
           (p_type buf = RAW_PKT_TYPE_REQ T \<or> p_type buf = RAW_PKT_TYPE_RES T \<longrightarrow>
              rr_ret res = ret \<and> rr_errno res = so_errno r \<and>
              p_magic (rr_packet res) = p_magic buf \<and>
              p_proto_vers (rr_packet res) = p_proto_vers buf \<and>
              p_type (rr_packet res) = p_type buf \<and> p_flags (rr_packet res) = p_flags buf \<and>
              p_req h (rr_packet res) =
                \<lparr>r_id = host_u16 BigEndian (p buf 0) (p buf 1), r_type = p buf 2,
                 r_addr = p buf 3,
                 r_val = host_u32 BigEndian (p buf 4) (p buf 5) (p buf 6) (p buf 7)\<rparr> \<and>
              (\<forall>a\<ge>8. p (rr_packet res) a = p buf a)) \<and>
           (p_type buf = RAW_PKT_TYPE_REQ T \<longrightarrow>
              rr_packet res = set_p_req h (raw_msg_req_ntoh h (p_req h buf)) buf) \<and>
           (p_type buf = RAW_PKT_TYPE_RES T \<longrightarrow>
              rr_packet res = set_p_req h (raw_msg_res_ntoh h (p_req h buf)) buf) \<and>
           (p_type buf = RAW_PKT_TYPE_ERR T \<longrightarrow>
              rr_ret res = ret \<and> rr_errno res = so_errno r \<and> rr_packet res = buf)"
    if m: "p_magic buf = 0x5A \<and> ret \<noteq> - 1"
      and a: "case packtype of None \<Rightarrow> True | Some t \<Rightarrow> t = 0 \<or> t = p_type buf"
  proof -
    have a1: "pt1 = p_type buf" and a2: "\<not> (pt \<noteq> 0 \<and> pt \<noteq> p_type buf)"
      using a by (auto simp: pt_def pt1_def split: option.splits)
    have m1: "\<not> p_magic buf \<noteq> PACKET_HEADER_MAGIC" and m2: "\<not> ret = - 1"
      using m by (simp_all add: magic)
    note eq2 = eq [unfolded if_not_P [OF m1] if_not_P [OF m2] if_not_P [OF a2] a1]
    have u: "p_type buf \<notin> {RAW_PKT_TYPE_BSAMP T, RAW_PKT_TYPE_REQ T,
                            RAW_PKT_TYPE_RES T, RAW_PKT_TYPE_ERR T} \<longrightarrow>
              rr_ret res = - 1 \<and> rr_errno res = EPROTO \<and> rr_packet res = buf"
      by (simp add: eq2)
    have b: "rr_ret res = ret \<and> rr_errno res = so_errno r \<and>
        rr_packet res = set_p_bsamp h (raw_msg_bsamp_ntoh h (p_bsamp h buf)) buf"
      if "p_type buf = RAW_PKT_TYPE_BSAMP T"
      using that by (simp add: eq2)
    have q: "rr_ret res = ret \<and> rr_errno res = so_errno r \<and>
        rr_packet res = set_p_req h (raw_msg_req_ntoh h (p_req h buf)) buf"
      if "p_type buf = RAW_PKT_TYPE_REQ T"
      using that d by (simp add: eq2)
    have s: "rr_ret res = ret \<and> rr_errno res = so_errno r \<and>
        rr_packet res = set_p_req h (raw_msg_res_ntoh h (p_req h buf)) buf"
      if "p_type buf = RAW_PKT_TYPE_RES T"
      using that d by (simp add: eq2)
    have s': "rr_packet res = set_p_req h (raw_msg_req_ntoh h (p_req h buf)) buf"
      if "p_type buf = RAW_PKT_TYPE_RES T"
      using s [OF that] by (simp add: raw_msg_res_ntoh_def)
    have e: "p_type buf = RAW_PKT_TYPE_ERR T \<longrightarrow>
              rr_ret res = ret \<and> rr_errno res = so_errno r \<and> rr_packet res = buf"
      using d by (simp add: eq2)
    have qs: "rr_ret res = ret \<and> rr_errno res = so_errno r \<and>
        rr_packet res = set_p_req h (raw_msg_req_ntoh h (p_req h buf)) buf"
      if "p_type buf = RAW_PKT_TYPE_REQ T \<or> p_type buf = RAW_PKT_TYPE_RES T"
      using that q s s' by blast
    show ?thesis
      using u b q s e qs
      by (auto simp: recv_req_decoded recv_bsamp_decoded set_p_req_frame set_p_bsamp_frame)
  qed
  have c6: "- (2 ^ 31) \<le> so_ret r \<and> so_ret r < 2 ^ 31 \<longrightarrow> ret = so_ret r"
    by (simp add: ret ssize_to_int_id)
  show ?thesis
    using c1 c2 c3 c4 c5 c6 by blast
qed

theorem raw_packet_recv_outcomes_witness:
  "pkt_types_ok example_types \<and>
   rr_ret (raw_packet_recv example_types LittleEndian
     (sys_answer \<lparr>so_ret = 12,
        so_buf = \<lparr>p_magic = 0x5A, p_proto_vers = 0, p_type = 2, p_flags = 0,
                  p = zero_mem(0 := 0x12, 1 := 0x34, 2 := 1, 3 := 2,
                               4 := 0xDE, 5 := 0xAD, 6 := 0xBE, 7 := 0xEF)\<rparr>,
        so_errno = 0\<rparr>)
     3 \<lparr>p_magic = 0, p_proto_vers = 0, p_type = 0, p_flags = 0, p = zero_mem\<rparr> (Some 0) 0 0) = 12 \<and>
   rr_packtype (raw_packet_recv example_types LittleEndian
     (sys_answer \<lparr>so_ret = 12,
        so_buf = \<lparr>p_magic = 0x5A, p_proto_vers = 0, p_type = 2, p_flags = 0,
                  p = zero_mem(0 := 0x12, 1 := 0x34, 2 := 1, 3 := 2,
                               4 := 0xDE, 5 := 0xAD, 6 := 0xBE, 7 := 0xEF)\<rparr>,
        so_errno = 0\<rparr>)
     3 \<lparr>p_magic = 0, p_proto_vers = 0, p_type = 0, p_flags = 0, p = zero_mem\<rparr> (Some 0) 0 0) = Some 2 \<and>
   p_req LittleEndian (rr_packet (raw_packet_recv example_types LittleEndian
     (sys_answer \<lparr>so_ret = 12,
        so_buf = \<lparr>p_magic = 0x5A, p_proto_vers = 0, p_type = 2, p_flags = 0,
                  p = zero_mem(0 := 0x12, 1 := 0x34, 2 := 1, 3 := 2,
                               4 := 0xDE, 5 := 0xAD, 6 := 0xBE, 7 := 0xEF)\<rparr>,
        so_errno = 0\<rparr>)
     3 \<lparr>p_magic = 0, p_proto_vers = 0, p_type = 0, p_flags = 0, p = zero_mem\<rparr> (Some 0) 0 0)) =
     \<lparr>r_id = 0x1234, r_type = 1, r_addr = 2, r_val = 0xDEADBEEF\<rparr> \<and>
   p_req LittleEndian (rr_packet (raw_packet_recv example_types LittleEndian
     (sys_answer \<lparr>so_ret = 12,
        so_buf = \<lparr>p_magic = 0x5A, p_proto_vers = 0, p_type = 3, p_flags = 0,
                  p = zero_mem(1 := 7, 2 := 5, 3 := 6, 4 := 1, 5 := 2, 6 := 3, 7 := 4)\<rparr>,
        so_errno = 0\<rparr>)
     3 \<lparr>p_magic = 0, p_proto_vers = 0, p_type = 0, p_flags = 0, p = zero_mem\<rparr> (Some 3) 0 0)) =
     \<lparr>r_id = 7, r_type = 5, r_addr = 6, r_val = 0x01020304\<rparr> \<and>
   rr_ret (raw_packet_recv example_types LittleEndian
     (sys_answer \<lparr>so_ret = 18,
        so_buf = \<lparr>p_magic = 0x5A, p_proto_vers = 0, p_type = 1, p_flags = 0,
                  p = zero_mem(3 := 0x2A, 5 := 2, 7 := 1, 8 := 0xAB, 9 := 0xCD,
                               10 := 1, 11 := 2, 12 := 0x11, 13 := 0x22)\<rparr>,
        so_errno = 0\<rparr>)
     3 \<lparr>p_magic = 0, p_proto_vers = 0, p_type = 0, p_flags = 0, p = zero_mem\<rparr> (Some 1) 0 0) = 18 \<and>
   bs_idx (p_bsamp LittleEndian (rr_packet (raw_packet_recv example_types LittleEndian
     (sys_answer \<lparr>so_ret = 18,
        so_buf = \<lparr>p_magic = 0x5A, p_proto_vers = 0, p_type = 1, p_flags = 0,
                  p = zero_mem(3 := 0x2A, 5 := 2, 7 := 1, 8 := 0xAB, 9 := 0xCD,
                               10 := 1, 11 := 2, 12 := 0x11, 13 := 0x22)\<rparr>,
        so_errno = 0\<rparr>)
     3 \<lparr>p_magic = 0, p_proto_vers = 0, p_type = 0, p_flags = 0, p = zero_mem\<rparr> (Some 1) 0 0))) = 42 \<and>
   bs_nchips (p_bsamp LittleEndian (rr_packet (raw_packet_recv example_types LittleEndian
     (sys_answer \<lparr>so_ret = 18,
        so_buf = \<lparr>p_magic = 0x5A, p_proto_vers = 0, p_type = 1, p_flags = 0,
                  p = zero_mem(3 := 0x2A, 5 := 2, 7 := 1, 8 := 0xAB, 9 := 0xCD,
                               10 := 1, 11 := 2, 12 := 0x11, 13 := 0x22)\<rparr>,
        so_errno = 0\<rparr>)
     3 \<lparr>p_magic = 0, p_proto_vers = 0, p_type = 0, p_flags = 0, p = zero_mem\<rparr> (Some 1) 0 0))) = 2 \<and>
   bs_nlines (p_bsamp LittleEndian (rr_packet (raw_packet_recv example_types LittleEndian
     (sys_answer \<lparr>so_ret = 18,
        so_buf = \<lparr>p_magic = 0x5A, p_proto_vers = 0, p_type = 1, p_flags = 0,
                  p = zero_mem(3 := 0x2A, 5 := 2, 7 := 1, 8 := 0xAB, 9 := 0xCD,
                               10 := 1, 11 := 2, 12 := 0x11, 13 := 0x22)\<rparr>,
        so_errno = 0\<rparr>)
     3 \<lparr>p_magic = 0, p_proto_vers = 0, p_type = 0, p_flags = 0, p = zero_mem\<rparr> (Some 1) 0 0))) = 1 \<and>
   map (bs_samples (p_bsamp LittleEndian (rr_packet (raw_packet_recv example_types LittleEndian
     (sys_answer \<lparr>so_ret = 18,
        so_buf = \<lparr>p_magic = 0x5A, p_proto_vers = 0, p_type = 1, p_flags = 0,
                  p = zero_mem(3 := 0x2A, 5 := 2, 7 := 1, 8 := 0xAB, 9 := 0xCD,
                               10 := 1, 11 := 2, 12 := 0x11, 13 := 0x22)\<rparr>,
        so_errno = 0\<rparr>)
     3 \<lparr>p_magic = 0, p_proto_vers = 0, p_type = 0, p_flags = 0, p = zero_mem\<rparr> (Some 1) 0 0))))
     [0, 1, 2] = [0xABCD, 0x0102, 0x2211] \<and>
   rr_ret (raw_packet_recv example_types LittleEndian
     (sys_answer \<lparr>so_ret = 4294967295,
        so_buf = \<lparr>p_magic = 0x5A, p_proto_vers = 0, p_type = 4, p_flags = 0, p = zero_mem\<rparr>,
        so_errno = 0\<rparr>)
     3 \<lparr>p_magic = 0, p_proto_vers = 0, p_type = 0, p_flags = 0, p = zero_mem\<rparr> (Some 4) 0 0) = - 1"
proof -
  have ok: "pkt_types_ok example_types"
    by (simp add: pkt_types_ok_def example_types_def)
  note t = raw_packet_recv_outcomes [OF ok refl refl refl refl, where h = LittleEndian
      and sockfd = 3 and flags = 0 and errno = 0
      and packet = "\<lparr>p_magic = 0, p_proto_vers = 0, p_type = 0, p_flags = 0, p = zero_mem\<rparr>"]
  let ?q = "sys_answer \<lparr>so_ret = 12,
        so_buf = \<lparr>p_magic = 0x5A, p_proto_vers = 0, p_type = 2, p_flags = 0,
                  p = zero_mem(0 := 0x12, 1 := 0x34, 2 := 1, 3 := 2,
                               4 := 0xDE, 5 := 0xAD, 6 := 0xBE, 7 := 0xEF)\<rparr>,
        so_errno = 0\<rparr>"
  let ?s = "sys_answer \<lparr>so_ret = 12,
        so_buf = \<lparr>p_magic = 0x5A, p_proto_vers = 0, p_type = 3, p_flags = 0,
                  p = zero_mem(1 := 7, 2 := 5, 3 := 6, 4 := 1, 5 := 2, 6 := 3, 7 := 4)\<rparr>,
        so_errno = 0\<rparr>"
  let ?b = "sys_answer \<lparr>so_ret = 18,
        so_buf = \<lparr>p_magic = 0x5A, p_proto_vers = 0, p_type = 1, p_flags = 0,
                  p = zero_mem(3 := 0x2A, 5 := 2, 7 := 1, 8 := 0xAB, 9 := 0xCD,
                               10 := 1, 11 := 2, 12 := 0x11, 13 := 0x22)\<rparr>,
        so_errno = 0\<rparr>"
  let ?e = "sys_answer \<lparr>so_ret = 4294967295,
        so_buf = \<lparr>p_magic = 0x5A, p_proto_vers = 0, p_type = 4, p_flags = 0, p = zero_mem\<rparr>,
        so_errno = 0\<rparr>"
  let ?pk = "\<lparr>p_magic = 0, p_proto_vers = 0, p_type = 0, p_flags = 0, p = zero_mem\<rparr>"
  have q: "rr_ret (raw_packet_recv example_types LittleEndian ?q 3 ?pk (Some 0) 0 0) = 12 \<and>
     rr_packtype (raw_packet_recv example_types LittleEndian ?q 3 ?pk (Some 0) 0 0) = Some 2 \<and>
     p_req LittleEndian (rr_packet (raw_packet_recv example_types LittleEndian ?q 3 ?pk (Some 0) 0 0))
       = \<lparr>r_id = 0x1234, r_type = 1, r_addr = 2, r_val = 0xDEADBEEF\<rparr>"
    using t [where recv_sys = ?q and packtype = "Some 0"]
    by (simp add: sys_answer_def example_types_def ssize_to_int_def host_u16_def host_u32_def
        recv_req_decoded zero_mem_def)
  have s: "p_req LittleEndian (rr_packet (raw_packet_recv example_types LittleEndian ?s 3 ?pk (Some 3) 0 0))
       = \<lparr>r_id = 7, r_type = 5, r_addr = 6, r_val = 0x01020304\<rparr>"
    using t [where recv_sys = ?s and packtype = "Some 3"]
    by (simp add: sys_answer_def example_types_def ssize_to_int_def host_u16_def host_u32_def
        recv_req_decoded recv_bsamp_decoded zero_mem_def raw_msg_res_ntoh_def)
  let ?rb = "raw_packet_recv example_types LittleEndian ?b 3 ?pk (Some 1) 0 0"
  have b: "rr_ret ?rb = 18 \<and>
     bs_idx (p_bsamp LittleEndian (rr_packet ?rb)) = 42 \<and>
     bs_nchips (p_bsamp LittleEndian (rr_packet ?rb)) = 2 \<and>
     bs_nlines (p_bsamp LittleEndian (rr_packet ?rb)) = 1 \<and>
     bs_samples (p_bsamp LittleEndian (rr_packet ?rb)) 0 = 0xABCD \<and>
     bs_samples (p_bsamp LittleEndian (rr_packet ?rb)) 1 = 0x0102 \<and>
     bs_samples (p_bsamp LittleEndian (rr_packet ?rb)) 2 = 0x2211"
    using t [where recv_sys = ?b and packtype = "Some 1"]
    by (simp add: sys_answer_def example_types_def ssize_to_int_def host_u16_def host_u32_def
        recv_bsamp_decoded zero_mem_def)
  have e: "rr_ret (raw_packet_recv example_types LittleEndian ?e 3 ?pk (Some 4) 0 0) = - 1"
    using t [where recv_sys = ?e and packtype = "Some 4"]
    by (simp add: sys_answer_def example_types_def ssize_to_int_def)
  show ?thesis
    using ok q s e b by simp
qed

text \<open>
  The claim as stated speaks of every call; it fails where \<^verbatim>\<open>recv\<close> returns \<open>-1\<close> (here
  with \<^verbatim>\<open>errno\<close> 11) and leaves in the buffer a packet with the right magic: \<^verbatim>\<open>*packtype\<close>
  was 0 on entry and is still 0, not the type 2 of the packet, and the error is neither
  \<^verbatim>\<open>EPROTO\<close> nor \<^verbatim>\<open>EIO\<close>.
\<close>

theorem raw_packet_recv_socket_failure_counterexample:
  "p_magic (rr_packet (raw_packet_recv example_types LittleEndian (sys_fail 11) 3
      \<lparr>p_magic = 0x5A, p_proto_vers = 0, p_type = 2, p_flags = 0, p = zero_mem\<rparr>
      (Some 0) 0 0)) = 0x5A \<and>
   p_type (rr_packet (raw_packet_recv example_types LittleEndian (sys_fail 11) 3
      \<lparr>p_magic = 0x5A, p_proto_vers = 0, p_type = 2, p_flags = 0, p = zero_mem\<rparr>
      (Some 0) 0 0)) = 2 \<and>
   rr_packtype (raw_packet_recv example_types LittleEndian (sys_fail 11) 3
      \<lparr>p_magic = 0x5A, p_proto_vers = 0, p_type = 2, p_flags = 0, p = zero_mem\<rparr>
      (Some 0) 0 0) = Some 0 \<and>
   rr_ret (raw_packet_recv example_types LittleEndian (sys_fail 11) 3
      \<lparr>p_magic = 0x5A, p_proto_vers = 0, p_type = 2, p_flags = 0, p = zero_mem\<rparr>
      (Some 0) 0 0) = - 1 \<and>
   rr_errno (raw_packet_recv example_types LittleEndian (sys_fail 11) 3
      \<lparr>p_magic = 0x5A, p_proto_vers = 0, p_type = 2, p_flags = 0, p = zero_mem\<rparr>
      (Some 0) 0 0) = 11"
  by (simp add: raw_packet_recv_def raw_packet_recv_after_def sys_fail_def Let_def
      PACKET_HEADER_MAGIC_def ssize_to_int_def)

text \<open>
  Claim C9. \<^verbatim>\<open>raw_packet_recv\<close> tests the magic byte before it looks at what \<^verbatim>\<open>recv\<close>
  returned: whenever the magic byte of the buffer after the read is not \<open>0x5A\<close> the call
  returns \<open>-1\<close> with \<^verbatim>\<open>errno = EPROTO\<close>, whatever \<^verbatim>\<open>recv\<close> returned, also when the read
  itself failed with \<open>-1\<close> and its own \<^verbatim>\<open>errno\<close>.
\<close>

theorem raw_packet_recv_magic_before_ret:
  assumes "p_magic (so_buf (recv_sys sockfd packet
              (raw_packet_recv_packsize T h packet packtype) flags errno)) \<noteq> 0x5A"
  shows "rr_ret (raw_packet_recv T h recv_sys sockfd packet packtype flags errno) = - 1 \<and>
         rr_errno (raw_packet_recv T h recv_sys sockfd packet packtype flags errno) = EPROTO"
  using assms
  by (simp add: raw_packet_recv_def raw_packet_recv_after_def Let_def PACKET_HEADER_MAGIC_def)

theorem raw_packet_recv_magic_before_ret_witness:
  "so_ret (sys_fail 11 3
      \<lparr>p_magic = 0, p_proto_vers = 0, p_type = 2, p_flags = 0, p = zero_mem\<rparr>
      (raw_packet_recv_packsize example_types LittleEndian
         \<lparr>p_magic = 0, p_proto_vers = 0, p_type = 2, p_flags = 0, p = zero_mem\<rparr> None) 0 0) = - 1 \<and>
   p_magic (so_buf (sys_fail 11 3
      \<lparr>p_magic = 0, p_proto_vers = 0, p_type = 2, p_flags = 0, p = zero_mem\<rparr>
      (raw_packet_recv_packsize example_types LittleEndian
         \<lparr>p_magic = 0, p_proto_vers = 0, p_type = 2, p_flags = 0, p = zero_mem\<rparr> None) 0 0))
     \<noteq> 0x5A \<and>
   rr_ret (raw_packet_recv example_types LittleEndian (sys_fail 11) 3
      \<lparr>p_magic = 0, p_proto_vers = 0, p_type = 2, p_flags = 0, p = zero_mem\<rparr> None 0 0) = - 1 \<and>
   rr_errno (raw_packet_recv example_types LittleEndian (sys_fail 11) 3
      \<lparr>p_magic = 0, p_proto_vers = 0, p_type = 2, p_flags = 0, p = zero_mem\<rparr> None 0 0) = 71"
proof -
  have h: "p_magic (so_buf (sys_fail 11 3
      \<lparr>p_magic = 0, p_proto_vers = 0, p_type = 2, p_flags = 0, p = zero_mem\<rparr>
      (raw_packet_recv_packsize example_types LittleEndian
         \<lparr>p_magic = 0, p_proto_vers = 0, p_type = 2, p_flags = 0, p = zero_mem\<rparr> None) 0 0))
     \<noteq> 0x5A"
    by (simp add: sys_fail_def)
  show ?thesis
    using h raw_packet_recv_magic_before_ret [of "sys_fail 11" 3
        "\<lparr>p_magic = 0, p_proto_vers = 0, p_type = 2, p_flags = 0, p = zero_mem\<rparr>"
        example_types LittleEndian None 0 0]
    by (simp add: sys_fail_def EPROTO_def)
qed

text \<open>
  Claim C7, as amended. On every receive the magic byte is validated: a packet whose magic
  is not \<open>0x5A\<close> is rejected with \<^verbatim>\<open>EPROTO\<close>. The protocol-version byte is not looked at:
  the same read with any other version byte \<open>v\<close> in the buffer gives the same return
  value, \<^verbatim>\<open>errno\<close> and \<^verbatim>\<open>*packtype\<close>, and the same packet but for that byte.
\<close>

theorem raw_packet_recv_validates_magic_only:
  "(p_magic (so_buf (recv_sys sockfd packet
        (raw_packet_recv_packsize T h packet packtype) flags errno)) \<noteq> 0x5A \<longrightarrow>
      rr_ret (raw_packet_recv T h recv_sys sockfd packet packtype flags errno) = - 1 \<and>
      rr_errno (raw_packet_recv T h recv_sys sockfd packet packtype flags errno) = EPROTO) \<and>
   raw_packet_recv T h
       (\<lambda>fd buf len fl en. (recv_sys fd buf len fl en)
            \<lparr>so_buf := (so_buf (recv_sys fd buf len fl en))\<lparr>p_proto_vers := v\<rparr>\<rparr>)
       sockfd packet packtype flags errno =
     (raw_packet_recv T h recv_sys sockfd packet packtype flags errno)
       \<lparr>rr_packet :=
          (rr_packet (raw_packet_recv T h recv_sys sockfd packet packtype flags errno))
            \<lparr>p_proto_vers := v\<rparr>\<rparr>"
proof -
  define r where
    "r = recv_sys sockfd packet (raw_packet_recv_packsize T h packet packtype) flags errno"
  have 1: "p_bsamp h (pk\<lparr>p_proto_vers := v\<rparr>) = p_bsamp h pk" for pk
    by (simp add: p_bsamp_def)
  have 2: "p_req h (pk\<lparr>p_proto_vers := v\<rparr>) = p_req h pk" for pk
    by (simp add: p_req_def)
  have 3: "set_p_bsamp h m (pk\<lparr>p_proto_vers := v\<rparr>) = (set_p_bsamp h m pk)\<lparr>p_proto_vers := v\<rparr>"
    for m pk
    by (simp add: set_p_bsamp_def cong: if_cong)
  have 4: "set_p_req h m (pk\<lparr>p_proto_vers := v\<rparr>) = (set_p_req h m pk)\<lparr>p_proto_vers := v\<rparr>"
    for m pk
    by (simp add: set_p_req_def)
  have a: "p_magic (so_buf r) \<noteq> 0x5A \<longrightarrow>
      rr_ret (raw_packet_recv_after T h r packtype) = - 1 \<and>
      rr_errno (raw_packet_recv_after T h r packtype) = EPROTO"
    by (simp add: raw_packet_recv_after_def Let_def PACKET_HEADER_MAGIC_def)
  have b: "raw_packet_recv_after T h (r\<lparr>so_buf := (so_buf r)\<lparr>p_proto_vers := v\<rparr>\<rparr>) packtype =
     (raw_packet_recv_after T h r packtype)
       \<lparr>rr_packet := (rr_packet (raw_packet_recv_after T h r packtype))\<lparr>p_proto_vers := v\<rparr>\<rparr>"
  proof -
    have u: "x\<lparr>rr_packet := (rr_packet x)\<lparr>p_proto_vers := v\<rparr>\<rparr> =
             rr_packet_update (p_proto_vers_update (\<lambda>_. v)) x" for x :: io_result
      by (cases x) simp
    show ?thesis
      unfolding u
      by (cases packtype)
         (simp_all add: raw_packet_recv_after_def Let_def 1 2 3 4
            if_distrib [of "rr_packet_update (p_proto_vers_update (\<lambda>_. v))"]
            split del: if_split cong: if_cong)
  qed
  show ?thesis
    using a b unfolding raw_packet_recv_def r_def by simp
qed

theorem raw_packet_recv_validates_magic_only_witness:
  "p_magic (so_buf (sys_answer \<lparr>so_ret = 12,
        so_buf = \<lparr>p_magic = 0x5B, p_proto_vers = 0, p_type = 4, p_flags = 0, p = zero_mem\<rparr>,
        so_errno = 0\<rparr> 3
      \<lparr>p_magic = 0, p_proto_vers = 0, p_type = 0, p_flags = 0, p = zero_mem\<rparr>
      (raw_packet_recv_packsize example_types LittleEndian
         \<lparr>p_magic = 0, p_proto_vers = 0, p_type = 0, p_flags = 0, p = zero_mem\<rparr> (Some 0)) 0 0))
     \<noteq> 0x5A \<and>
   rr_ret (raw_packet_recv example_types LittleEndian
     (sys_answer \<lparr>so_ret = 12,
        so_buf = \<lparr>p_magic = 0x5B, p_proto_vers = 0, p_type = 4, p_flags = 0, p = zero_mem\<rparr>,
        so_errno = 0\<rparr>)
     3 \<lparr>p_magic = 0, p_proto_vers = 0, p_type = 0, p_flags = 0, p = zero_mem\<rparr> (Some 0) 0 0) = - 1 \<and>
   rr_errno (raw_packet_recv example_types LittleEndian
     (sys_answer \<lparr>so_ret = 12,
        so_buf = \<lparr>p_magic = 0x5B, p_proto_vers = 0, p_type = 4, p_flags = 0, p = zero_mem\<rparr>,
        so_errno = 0\<rparr>)
     3 \<lparr>p_magic = 0, p_proto_vers = 0, p_type = 0, p_flags = 0, p = zero_mem\<rparr> (Some 0) 0 0) = 71"
  using raw_packet_recv_validates_magic_only [of
     "sys_answer \<lparr>so_ret = 12,
        so_buf = \<lparr>p_magic = 0x5B, p_proto_vers = 0, p_type = 4, p_flags = 0, p = zero_mem\<rparr>,
        so_errno = 0\<rparr>" 3
     "\<lparr>p_magic = 0, p_proto_vers = 0, p_type = 0, p_flags = 0, p = zero_mem\<rparr>"
     example_types LittleEndian "Some 0" 0 0, THEN conjunct1]
  by (simp add: sys_answer_def EPROTO_def)

text \<open>
  The claim as stated, that a version other than \<open>0x00\<close> is rejected, fails on an error
  packet with the right magic and version 1: the call returns the 12 bytes read.
\<close>

theorem raw_packet_recv_version_counterexample:
  "rr_ret (raw_packet_recv example_types LittleEndian
     (sys_answer \<lparr>so_ret = 12,
        so_buf = \<lparr>p_magic = 0x5A, p_proto_vers = 1, p_type = 4, p_flags = 0, p = zero_mem\<rparr>,
        so_errno = 0\<rparr>)
     3 \<lparr>p_magic = 0, p_proto_vers = 0, p_type = 0, p_flags = 0, p = zero_mem\<rparr> (Some 0) 0 0) = 12 \<and>
   rr_errno (raw_packet_recv example_types LittleEndian
     (sys_answer \<lparr>so_ret = 12,
        so_buf = \<lparr>p_magic = 0x5A, p_proto_vers = 1, p_type = 4, p_flags = 0, p = zero_mem\<rparr>,
        so_errno = 0\<rparr>)
     3 \<lparr>p_magic = 0, p_proto_vers = 0, p_type = 0, p_flags = 0, p = zero_mem\<rparr> (Some 0) 0 0) = 0 \<and>
   p_proto_vers (rr_packet (raw_packet_recv example_types LittleEndian
     (sys_answer \<lparr>so_ret = 12,
        so_buf = \<lparr>p_magic = 0x5A, p_proto_vers = 1, p_type = 4, p_flags = 0, p = zero_mem\<rparr>,
        so_errno = 0\<rparr>)
     3 \<lparr>p_magic = 0, p_proto_vers = 0, p_type = 0, p_flags = 0, p = zero_mem\<rparr> (Some 0) 0 0)) = 1"
  by (simp add: raw_packet_recv_def raw_packet_recv_after_def sys_answer_def Let_def
      PACKET_HEADER_MAGIC_def example_types_def ssize_to_int_def)


section \<open>Installing and clearing transactions\<close>

lemma control_set_transactions_loop_result:
  "ctl_txns cs = Some ts \<Longrightarrow> i \<le> n \<Longrightarrow> n \<le> length ts \<Longrightarrow>
   \<exists>ts'. control_set_transactions_loop cs i n =
           Inr (cs\<lparr>ctl_txns := Some ts', ctl_cur_rid := ctl_cur_rid cs + of_nat (n - i)\<rparr>) \<and>
         length ts' = length ts \<and>
         (\<forall>j<length ts. ts' ! j =
            (if i \<le> j \<and> j < n
             then (ts ! j)\<lparr>ctxn_req := (ctxn_req (ts ! j))\<lparr>r_id := ctl_cur_rid cs + of_nat (j - i)\<rparr>\<rparr>
             else ts ! j))"
proof (induction cs i n arbitrary: ts rule: control_set_transactions_loop.induct)
  case (1 cs i n)
  show ?case
  proof (cases "i < n")
    case False
    with 1 have "i = n" by simp
    then show ?thesis
      using "1.prems"
      by (subst control_set_transactions_loop.simps) (auto intro!: exI [of _ ts])
  next
    case True
    let ?t = "(ts ! i)\<lparr>ctxn_req := (ctxn_req (ts ! i))\<lparr>r_id := ctl_cur_rid cs\<rparr>\<rparr>"
    let ?cs = "cs\<lparr>ctl_txns := Some (ts[i := ?t]), ctl_cur_rid := ctl_cur_rid cs + 1\<rparr>"
    have il: "\<not> length ts \<le> i" using True "1.prems" by simp
    have p1: "ctl_txns ?cs = Some (ts[i := ?t])" by simp
    have p2: "Suc i \<le> n" using True by simp
    have p3: "n \<le> length (ts[i := ?t])" using "1.prems" by simp
    note ih = "1.IH" [OF True "1.prems"(1) il p1 p2 p3]
    from ih obtain ts' where
      run: "control_set_transactions_loop ?cs (Suc i) n =
           Inr (?cs\<lparr>ctl_txns := Some ts', ctl_cur_rid := ctl_cur_rid ?cs + of_nat (n - Suc i)\<rparr>)"
      and len': "length ts' = length (ts[i := ?t])"
      and el': "\<forall>j<length (ts[i := ?t]). ts' ! j =
            (if Suc i \<le> j \<and> j < n
             then ((ts[i := ?t]) ! j)\<lparr>ctxn_req :=
                    (ctxn_req ((ts[i := ?t]) ! j))\<lparr>r_id := ctl_cur_rid ?cs + of_nat (j - Suc i)\<rparr>\<rparr>
             else (ts[i := ?t]) ! j)"
      by (elim exE conjE)
    have len: "length ts' = length ts" using len' by simp
    have el: "ts' ! j =
            (if Suc i \<le> j \<and> j < n
             then ((ts[i := ?t]) ! j)\<lparr>ctxn_req :=
                    (ctxn_req ((ts[i := ?t]) ! j))\<lparr>r_id := ctl_cur_rid cs + 1 + of_nat (j - Suc i)\<rparr>\<rparr>
             else (ts[i := ?t]) ! j)" if "j < length ts" for j
      using el' [rule_format, of j] that by simp
    have "n - i = Suc (n - Suc i)"
      using True by arith
    then have rid: "ctl_cur_rid cs + 1 + of_nat (n - Suc i) = ctl_cur_rid cs + of_nat (n - i)"
      by simp
    have step: "control_set_transactions_loop cs i n = control_set_transactions_loop ?cs (Suc i) n"
      using True il "1.prems"(1) by (subst control_set_transactions_loop.simps) simp
    have res: "control_set_transactions_loop cs i n =
           Inr (cs\<lparr>ctl_txns := Some ts', ctl_cur_rid := ctl_cur_rid cs + of_nat (n - i)\<rparr>)"
      unfolding step run using rid by simp
    have els: "ts' ! j =
            (if i \<le> j \<and> j < n
             then (ts ! j)\<lparr>ctxn_req := (ctxn_req (ts ! j))\<lparr>r_id := ctl_cur_rid cs + of_nat (j - i)\<rparr>\<rparr>
             else ts ! j)" if j: "j < length ts" for j
    proof (cases "j = i")
      case True
      then show ?thesis using el [OF j] j \<open>i < n\<close> by simp
    next
      case False
      have "ctl_cur_rid cs + 1 + of_nat (j - Suc i) = ctl_cur_rid cs + of_nat (j - i)" if "Suc i \<le> j"
      proof -
        have "j - i = Suc (j - Suc i)" using that by arith
        then show ?thesis by simp
      qed
      then show ?thesis using el [OF j] j False by auto
    qed
    show ?thesis
      using res len els by blast
  qed
qed

lemma control_set_transactions_loop_no_assert:
  "control_set_transactions_loop cs i n \<noteq> Inl AssertionFailed"
proof (induction cs i n rule: control_set_transactions_loop.induct)
  case (1 cs i n)
  show ?case
    using 1 by (subst control_set_transactions_loop.simps) (auto split: option.splits)
qed

text \<open>
  Claim C3. For a session whose transaction list is empty and whose \<^verbatim>\<open>ctl_cur_rid\<close> is
  \<open>k\<close>, \<^verbatim>\<open>control_set_transactions(cs, txns, n, have_lock)\<close> with \<open>n > 0\<close> (and an array of
  at least \<open>n\<close> transactions) stamps the request of \<^verbatim>\<open>txns[i]\<close> with \<open>k + i\<close> for every
  \<open>i < n\<close> and changes nothing else in the array, leaves \<^verbatim>\<open>ctl_cur_rid\<close> at \<open>k + n\<close> and
  sets \<^verbatim>\<open>ctl_cur_txn\<close> to 0. With a null \<^verbatim>\<open>txns\<close> and \<open>n = 0\<close>, on any session, whatever
  its list, it sets \<^verbatim>\<open>ctl_cur_txn\<close> to \<open>-1\<close>, \<^verbatim>\<open>ctl_txns\<close> to null and \<^verbatim>\<open>ctl_n_txns\<close> to
  0, and leaves \<^verbatim>\<open>ctl_cur_rid\<close> as it was. The sums are those of the 16-bit request id,
  which wraps.
\<close>

theorem control_set_transactions_stamps:
  "(ctl_txns cs = None \<and> ctl_cur_txn cs = - 1 \<and> ctl_n_txns cs = 0 \<and> ctl_cur_rid cs = k \<and>
    0 < n \<and> n \<le> length txns \<longrightarrow>
      (\<exists>cs' ts'. control_set_transactions cs (Some txns) n have_lock = Inr cs' \<and>
         ctl_txns cs' = Some ts' \<and> length ts' = length txns \<and>
         (\<forall>i<n. r_id (ctxn_req (ts' ! i)) = k + of_nat i) \<and>
         (\<forall>i<n. ts' ! i = (txns ! i)\<lparr>ctxn_req := (ctxn_req (txns ! i))\<lparr>r_id := k + of_nat i\<rparr>\<rparr>) \<and>
         (\<forall>i<length txns. n \<le> i \<longrightarrow> ts' ! i = txns ! i) \<and>
         ctl_n_txns cs' = n \<and> ctl_cur_rid cs' = k + of_nat n \<and> ctl_cur_txn cs' = 0)) \<and>
   (\<exists>cs'. control_set_transactions cs None 0 have_lock = Inr cs' \<and>
      ctl_txns cs' = None \<and> ctl_n_txns cs' = 0 \<and> ctl_cur_txn cs' = - 1 \<and>
      ctl_cur_rid cs' = ctl_cur_rid cs \<and> cbev cs' = cbev cs \<and> dbev cs' = dbev cs \<and>
      wake_why cs' = wake_why cs)"
proof -
  define cs1 where "cs1 = (if \<not> have_lock then control_must_lock cs else cs)"
  have g1: "ctl_txns cs1 = ctl_txns cs" "ctl_cur_txn cs1 = ctl_cur_txn cs"
    "ctl_n_txns cs1 = ctl_n_txns cs" "ctl_cur_rid cs1 = ctl_cur_rid cs"
    "cbev cs1 = cbev cs" "dbev cs1 = dbev cs" "wake_why cs1 = wake_why cs"
    by (simp_all add: cs1_def control_must_lock_def log_event_def)
  have install: "\<exists>cs' ts'. control_set_transactions cs (Some txns) n have_lock = Inr cs' \<and>
         ctl_txns cs' = Some ts' \<and> length ts' = length txns \<and>
         (\<forall>i<n. r_id (ctxn_req (ts' ! i)) = k + of_nat i) \<and>
         (\<forall>i<n. ts' ! i = (txns ! i)\<lparr>ctxn_req := (ctxn_req (txns ! i))\<lparr>r_id := k + of_nat i\<rparr>\<rparr>) \<and>
         (\<forall>i<length txns. n \<le> i \<longrightarrow> ts' ! i = txns ! i) \<and>
         ctl_n_txns cs' = n \<and> ctl_cur_rid cs' = k + of_nat n \<and> ctl_cur_txn cs' = 0"
    if empty: "ctl_txns cs = None" "ctl_cur_txn cs = - 1" "ctl_n_txns cs = 0"
      and k: "ctl_cur_rid cs = k" and n: "0 < n" "n \<le> length txns"
  proof -
    have f1: "ctl_txns cs1 = None" "ctl_cur_txn cs1 = - 1" "ctl_n_txns cs1 = 0"
      "ctl_cur_rid cs1 = k"
      using empty k g1 by simp_all
    define cs3 where "cs3 = cs1\<lparr>ctl_txns := Some txns, ctl_n_txns := n, ctl_cur_txn := 0\<rparr>"
    have "ctl_txns cs3 = Some txns" by (simp add: cs3_def)
    from control_set_transactions_loop_result [OF this le0 n(2)]
    obtain ts' where
      run: "control_set_transactions_loop cs3 0 n =
             Inr (cs3\<lparr>ctl_txns := Some ts', ctl_cur_rid := ctl_cur_rid cs3 + of_nat (n - 0)\<rparr>)"
      and len: "length ts' = length txns"
      and el: "\<forall>j<length txns. ts' ! j =
              (if 0 \<le> j \<and> j < n
               then (txns ! j)\<lparr>ctxn_req := (ctxn_req (txns ! j))\<lparr>r_id := ctl_cur_rid cs3 + of_nat (j - 0)\<rparr>\<rparr>
               else txns ! j)"
      by (elim exE conjE)
    have rid3: "ctl_cur_rid cs3 = k" using f1 by (simp add: cs3_def)
    have whole: "ts' ! i = (txns ! i)\<lparr>ctxn_req := (ctxn_req (txns ! i))\<lparr>r_id := k + of_nat i\<rparr>\<rparr>"
      if "i < n" for i
      using el [rule_format, of i] that n(2) rid3 by simp
    have stamped: "r_id (ctxn_req (ts' ! i)) = k + of_nat i" if "i < n" for i
      using whole [OF that] by simp
    have kept: "ts' ! i = txns ! i" if "i < length txns" "n \<le> i" for i
      using el [rule_format, of i] that by simp
    define cs4 where "cs4 = cs3\<lparr>ctl_txns := Some ts', ctl_cur_rid := k + of_nat n\<rparr>"
    define cs' where "cs' = (if \<not> have_lock then control_must_unlock (log_event EvTxnsWritten cs4)
                             else log_event EvTxnsWritten cs4)"
    have inst: "control_set_transactions cs (Some txns) n have_lock = Inr cs'"
      using n(1) f1 run rid3
      unfolding control_set_transactions_def Let_def cs1_def [symmetric] cs'_def cs4_def cs3_def
      by simp
    have fields: "ctl_txns cs' = Some ts'" "ctl_n_txns cs' = n" "ctl_cur_rid cs' = k + of_nat n"
      "ctl_cur_txn cs' = 0"
      by (simp_all add: cs'_def cs4_def cs3_def control_must_unlock_def log_event_def)
    show ?thesis
      using inst fields len stamped whole kept by blast
  qed
  define cs2 where "cs2 = (if ctl_txns cs1 \<noteq> None then log_event EvFreeTxns cs1 else cs1)"
  define cl where "cl = cs2\<lparr>ctl_txns := None, ctl_n_txns := 0, ctl_cur_txn := - 1\<rparr>"
  define cl' where "cl' = (if \<not> have_lock then control_must_unlock (log_event EvTxnsWritten cl)
                           else log_event EvTxnsWritten cl)"
  have clear: "control_set_transactions cs None 0 have_lock = Inr cl'"
    unfolding control_set_transactions_def Let_def cs1_def [symmetric] cs2_def [symmetric]
      cl'_def cl_def
    by simp
  have g2: "ctl_cur_rid cs2 = ctl_cur_rid cs" "cbev cs2 = cbev cs" "dbev cs2 = dbev cs"
    "wake_why cs2 = wake_why cs"
    using g1 by (simp_all add: cs2_def log_event_def)
  have cfields: "ctl_txns cl' = None" "ctl_n_txns cl' = 0" "ctl_cur_txn cl' = - 1"
    "ctl_cur_rid cl' = ctl_cur_rid cs" "cbev cl' = cbev cs" "dbev cl' = dbev cs"
    "wake_why cl' = wake_why cs"
    using g2 by (simp_all add: cl'_def cl_def control_must_unlock_def log_event_def)
  have clr: "\<exists>cs'. control_set_transactions cs None 0 have_lock = Inr cs' \<and>
      ctl_txns cs' = None \<and> ctl_n_txns cs' = 0 \<and> ctl_cur_txn cs' = - 1 \<and>
      ctl_cur_rid cs' = ctl_cur_rid cs \<and> cbev cs' = cbev cs \<and> dbev cs' = dbev cs \<and>
      wake_why cs' = wake_why cs"
    using clear cfields by blast
  show ?thesis
    using install clr by blast
qed

theorem control_set_transactions_stamps_witness:
  "(\<exists>cs' ts'.
      control_set_transactions
        \<lparr>cbev = None, dbev = None, wake_why = 0, ctl_txns = None, ctl_n_txns = 0,
         ctl_cur_txn = - 1, ctl_cur_rid = 0xFFFF, trace = []\<rparr>
        (Some (replicate 3
           \<lparr>ctxn_req = \<lparr>r_id = 7, r_type = 1, r_addr = 0, r_val = 0\<rparr>,
            ctxn_res = \<lparr>r_id = 0, r_type = 0, r_addr = 0, r_val = 0\<rparr>\<rparr>)) 3 False = Inr cs' \<and>
      ctl_txns cs' = Some ts' \<and>
      r_id (ctxn_req (ts' ! 0)) = 0xFFFF \<and> r_id (ctxn_req (ts' ! 1)) = 0 \<and>
      r_id (ctxn_req (ts' ! 2)) = 1 \<and>
      ctl_cur_rid cs' = 2 \<and> ctl_cur_txn cs' = 0) \<and>
   (\<exists>cs'.
      control_set_transactions
        \<lparr>cbev = None, dbev = None, wake_why = 0,
         ctl_txns = Some (replicate 3
           \<lparr>ctxn_req = \<lparr>r_id = 7, r_type = 1, r_addr = 0, r_val = 0\<rparr>,
            ctxn_res = \<lparr>r_id = 0, r_type = 0, r_addr = 0, r_val = 0\<rparr>\<rparr>),
         ctl_n_txns = 3, ctl_cur_txn = 1, ctl_cur_rid = 5, trace = []\<rparr> None 0 False = Inr cs' \<and>
      ctl_txns cs' = None \<and> ctl_n_txns cs' = 0 \<and> ctl_cur_txn cs' = - 1 \<and> ctl_cur_rid cs' = 5)"
proof -
  let ?cs = "\<lparr>cbev = None, dbev = None, wake_why = 0, ctl_txns = None, ctl_n_txns = 0,
         ctl_cur_txn = - 1, ctl_cur_rid = 0xFFFF :: u16, trace = []\<rparr>"
  let ?txns = "replicate 3
           \<lparr>ctxn_req = \<lparr>r_id = 7, r_type = 1, r_addr = 0, r_val = 0\<rparr>,
            ctxn_res = \<lparr>r_id = 0, r_type = 0, r_addr = 0, r_val = 0\<rparr>\<rparr>"
  let ?busy = "\<lparr>cbev = None, dbev = None, wake_why = 0, ctl_txns = Some ?txns,
         ctl_n_txns = 3, ctl_cur_txn = 1, ctl_cur_rid = 5 :: u16, trace = []\<rparr>"
  have h: "ctl_txns ?cs = None \<and> ctl_cur_txn ?cs = - 1 \<and> ctl_n_txns ?cs = 0 \<and>
    ctl_cur_rid ?cs = 0xFFFF \<and> 0 < (3::nat) \<and> 3 \<le> length ?txns"
    by simp
  note t = control_set_transactions_stamps [of ?cs "0xFFFF" 3 ?txns False,
      THEN conjunct1, rule_format, OF h]
  from t obtain cs' ts' where
    a: "control_set_transactions ?cs (Some ?txns) 3 False = Inr cs'" "ctl_txns cs' = Some ts'"
    and b: "\<forall>i<3. r_id (ctxn_req (ts' ! i)) = 0xFFFF + of_nat i"
    and c: "ctl_cur_rid cs' = 0xFFFF + of_nat 3" "ctl_cur_txn cs' = 0"
    by blast
  have b0: "r_id (ctxn_req (ts' ! 0)) = 0xFFFF" using b [rule_format, of 0] by simp
  have b1: "r_id (ctxn_req (ts' ! 1)) = 0" using b [rule_format, of 1] by simp
  have b2: "r_id (ctxn_req (ts' ! 2)) = 1" using b [rule_format, of 2] by simp
  have c': "ctl_cur_rid cs' = 2" using c(1) by simp
  note u = control_set_transactions_stamps [of ?busy "5" 3 ?txns False, THEN conjunct2]
  from u obtain cl where d: "control_set_transactions ?busy None 0 False = Inr cl"
    "ctl_txns cl = None" "ctl_n_txns cl = 0" "ctl_cur_txn cl = - 1" "ctl_cur_rid cl = ctl_cur_rid ?busy"
    by blast
  have d': "ctl_cur_rid cl = 5" using d(5) by simp
  show ?thesis
    using a b0 b1 b2 c' c(2) d(1-4) d' by blast
qed

text \<open>
  Claim C5. The assertion of \<^verbatim>\<open>control_set_transactions\<close> fails exactly when neither the
  list is empty (\<^verbatim>\<open>ctl_txns\<close> null, \<^verbatim>\<open>ctl_cur_txn\<close> \<open>-1\<close>, \<^verbatim>\<open>ctl_n_txns\<close> 0) nor the call
  is a clear (null \<^verbatim>\<open>txns\<close>, \<open>n = 0\<close>): under that precondition it never fires, and every
  call with \<open>n > 0\<close> while \<^verbatim>\<open>ctl_cur_txn\<close> is not \<open>-1\<close> violates it.
\<close>

theorem control_set_transactions_assertion:
  "(control_set_transactions cs txns n have_lock = Inl AssertionFailed \<longleftrightarrow>
      \<not> ((ctl_txns cs = None \<and> ctl_cur_txn cs = - 1 \<and> ctl_n_txns cs = 0) \<or>
         (txns = None \<and> n = 0))) \<and>
   (0 < n \<and> ctl_cur_txn cs \<noteq> - 1 \<longrightarrow>
      control_set_transactions cs txns n have_lock = Inl AssertionFailed)"
proof -
  define cs1 where "cs1 = (if \<not> have_lock then control_must_lock cs else cs)"
  have f1: "ctl_txns cs1 = ctl_txns cs" "ctl_cur_txn cs1 = ctl_cur_txn cs"
    "ctl_n_txns cs1 = ctl_n_txns cs"
    by (simp_all add: cs1_def control_must_lock_def log_event_def)
  let ?pre = "(ctl_txns cs = None \<and> ctl_cur_txn cs = - 1 \<and> ctl_n_txns cs = 0) \<or>
         (txns = None \<and> n = 0)"
  have fails: "control_set_transactions cs txns n have_lock = Inl AssertionFailed" if "\<not> ?pre"
    using that f1
    unfolding control_set_transactions_def Let_def cs1_def [symmetric]
    by simp
  have passes: "control_set_transactions cs txns n have_lock \<noteq> Inl AssertionFailed" if "?pre"
  proof -
    have "control_set_transactions cs txns n have_lock =
      (case (if n = 0
             then Inr ((if ctl_txns cs1 \<noteq> None then log_event EvFreeTxns cs1 else cs1)
                        \<lparr>ctl_txns := txns, ctl_n_txns := n, ctl_cur_txn := - 1\<rparr>)
             else control_set_transactions_loop
                    ((if ctl_txns cs1 \<noteq> None then log_event EvFreeTxns cs1 else cs1)
                        \<lparr>ctl_txns := txns, ctl_n_txns := n, ctl_cur_txn := 0\<rparr>) 0 n) of
         Inl f \<Rightarrow> Inl f
       | Inr cs4 \<Rightarrow> Inr (if \<not> have_lock then control_must_unlock (log_event EvTxnsWritten cs4)
                        else log_event EvTxnsWritten cs4))"
      using that f1
      unfolding control_set_transactions_def Let_def cs1_def [symmetric]
      by simp
    then show ?thesis
      using control_set_transactions_loop_no_assert
      by (auto split: sum.splits if_splits)
  qed
  have iff: "control_set_transactions cs txns n have_lock = Inl AssertionFailed \<longleftrightarrow> \<not> ?pre"
    using fails passes by blast
  have "\<not> ?pre" if "0 < n \<and> ctl_cur_txn cs \<noteq> - 1"
    using that by auto
  then have imp: "0 < n \<and> ctl_cur_txn cs \<noteq> - 1 \<longrightarrow>
      control_set_transactions cs txns n have_lock = Inl AssertionFailed"
    using fails by blast
  show ?thesis
    using iff imp by (rule conjI)
qed

theorem control_set_transactions_assertion_witness:
  "control_set_transactions
     \<lparr>cbev = None, dbev = None, wake_why = 0,
      ctl_txns = Some [\<lparr>ctxn_req = \<lparr>r_id = 7, r_type = 1, r_addr = 0, r_val = 0\<rparr>,
                       ctxn_res = \<lparr>r_id = 0, r_type = 0, r_addr = 0, r_val = 0\<rparr>\<rparr>],
      ctl_n_txns = 1, ctl_cur_txn = 0, ctl_cur_rid = 8, trace = []\<rparr>
     (Some [\<lparr>ctxn_req = \<lparr>r_id = 0, r_type = 1, r_addr = 0, r_val = 0\<rparr>,
             ctxn_res = \<lparr>r_id = 0, r_type = 0, r_addr = 0, r_val = 0\<rparr>\<rparr>]) 1 True
     = Inl AssertionFailed \<and>
   control_set_transactions
     \<lparr>cbev = None, dbev = None, wake_why = 0,
      ctl_txns = Some [\<lparr>ctxn_req = \<lparr>r_id = 7, r_type = 1, r_addr = 0, r_val = 0\<rparr>,
                       ctxn_res = \<lparr>r_id = 0, r_type = 0, r_addr = 0, r_val = 0\<rparr>\<rparr>],
      ctl_n_txns = 1, ctl_cur_txn = 0, ctl_cur_rid = 8, trace = []\<rparr>
     None 0 True \<noteq> Inl AssertionFailed"
  using control_set_transactions_assertion [of
     "\<lparr>cbev = None, dbev = None, wake_why = 0,
      ctl_txns = Some [\<lparr>ctxn_req = \<lparr>r_id = 7, r_type = 1, r_addr = 0, r_val = 0\<rparr>,
                       ctxn_res = \<lparr>r_id = 0, r_type = 0, r_addr = 0, r_val = 0\<rparr>\<rparr>],
      ctl_n_txns = 1, ctl_cur_txn = 0, ctl_cur_rid = 8, trace = []\<rparr>"
     "Some [\<lparr>ctxn_req = \<lparr>r_id = 0, r_type = 1, r_addr = 0, r_val = 0\<rparr>,
             ctxn_res = \<lparr>r_id = 0, r_type = 0, r_addr = 0, r_val = 0\<rparr>\<rparr>]" 1 True]
    control_set_transactions_assertion [of
     "\<lparr>cbev = None, dbev = None, wake_why = 0,
      ctl_txns = Some [\<lparr>ctxn_req = \<lparr>r_id = 7, r_type = 1, r_addr = 0, r_val = 0\<rparr>,
                       ctxn_res = \<lparr>r_id = 0, r_type = 0, r_addr = 0, r_val = 0\<rparr>\<rparr>],
      ctl_n_txns = 1, ctl_cur_txn = 0, ctl_cur_rid = 8, trace = []\<rparr>"
     None 0 True]
  by simp


section \<open>Closing the client connection\<close>






section \<open>The worker loop\<close>







end
